theory Spec2Isabelle
  imports Complex_Main "HOL-Library.Word"
begin

unbundle bit_operations_syntax

section \<open>JavaScript values\<close>

text \<open>
  A JavaScript string is a sequence of UTF-16 code units; \<open>s.length\<close> counts code units
  and a regular expression without the \<open>u\<close> flag matches code units. The string literals of
  the source are ASCII and are written \<open>js ''...''\<close>.
\<close>

type_synonym jsstring = "16 word list"

definition js :: "string \<Rightarrow> jsstring" where
  "js s = map of_char s"

text \<open>A thrown \<open>Error\<close>, with its message.\<close>

datatype js_error = Error jsstring

section \<open>src/lib/crypto.ts\<close>

subsection \<open>The crypto-js library\<close>

text \<open>
  crypto-js is a dependency and not part of the repository. The calls the source makes
  are the fields of two records, which the functions of \<open>crypto.ts\<close> take as their first
  argument. Each call may throw, so each returns a sum. For the cipher:
  \<^item> \<open>AES_encrypt r plaintext key\<close> is \<open>CryptoJS.AES.encrypt(plaintext, key).toString()\<close>;
  \<^item> \<open>AES_decrypt r ciphertext key\<close> is \<open>CryptoJS.AES.decrypt(ciphertext, key)\<close>, a word array;
  \<^item> \<open>Utf8_stringify bytes\<close> is \<open>bytes.toString(CryptoJS.enc.Utf8)\<close>;
  where \<open>r\<close> is the randomness the library draws during the call (a salt). For the
  derivation of the key:
  \<^item> \<open>SHA256_hex data\<close> is \<open>CryptoJS.SHA256(data).toString()\<close>;
  \<^item> \<open>PBKDF2_hex password salt keySize iterations\<close> is
    \<open>CryptoJS.PBKDF2(password, salt, {keySize, iterations}).toString()\<close>.
\<close>

record ('r, 'w) cryptojs =
  AES_encrypt :: "'r \<Rightarrow> jsstring \<Rightarrow> jsstring \<Rightarrow> js_error + jsstring"
  AES_decrypt :: "'r \<Rightarrow> jsstring \<Rightarrow> jsstring \<Rightarrow> js_error + 'w"
  Utf8_stringify :: "'w \<Rightarrow> js_error + jsstring"

record cryptojs_kdf =
  SHA256_hex :: "jsstring \<Rightarrow> js_error + jsstring"
  PBKDF2_hex :: "jsstring \<Rightarrow> jsstring \<Rightarrow> nat \<Rightarrow> nat \<Rightarrow> js_error + jsstring"

subsection \<open>Key derivation\<close>

definition PBKDF2_ITERATIONS :: nat where
  "PBKDF2_ITERATIONS = 100000"

definition KEY_SIZE :: nat where
  "KEY_SIZE = 256 div 32"

definition deriveKey :: "cryptojs_kdf \<Rightarrow> jsstring \<Rightarrow> jsstring \<Rightarrow> js_error + jsstring" where
  "deriveKey lib masterPassword email =
     (case SHA256_hex lib email of
        Inl e \<Rightarrow> Inl e
      | Inr salt \<Rightarrow> PBKDF2_hex lib masterPassword salt KEY_SIZE PBKDF2_ITERATIONS)"

subsection \<open>The field cipher\<close>

text \<open>
  \<open>!plaintext\<close> on a string is true exactly for the empty string. The body of each \<open>try\<close> is
  the inner \<open>case\<close>; the \<open>catch\<close> replaces whatever was thrown, the \<open>Error\<close> thrown by the body
  for an empty result included.
\<close>

definition encrypt :: "('r, 'w) cryptojs \<Rightarrow> 'r \<Rightarrow> jsstring \<Rightarrow> jsstring \<Rightarrow> js_error + jsstring" where
  "encrypt lib r plaintext key =
     (if plaintext = [] then Inr []
      else case AES_encrypt lib r plaintext key of
             Inl error \<Rightarrow> Inl (Error (js ''Failed to encrypt data''))
           | Inr ciphertext \<Rightarrow> Inr ciphertext)"

definition decrypt_body :: "('r, 'w) cryptojs \<Rightarrow> 'r \<Rightarrow> jsstring \<Rightarrow> jsstring \<Rightarrow> js_error + jsstring" where
  "decrypt_body lib r ciphertext key =
     (case AES_decrypt lib r ciphertext key of
        Inl e \<Rightarrow> Inl e
      | Inr bytes \<Rightarrow>
          (case Utf8_stringify lib bytes of
             Inl e \<Rightarrow> Inl e
           | Inr plaintext \<Rightarrow>
               if plaintext = []
               then Inl (Error (js ''Decryption failed - invalid key or corrupted data''))
               else Inr plaintext))"

definition decrypt :: "('r, 'w) cryptojs \<Rightarrow> 'r \<Rightarrow> jsstring \<Rightarrow> jsstring \<Rightarrow> js_error + jsstring" where
  "decrypt lib r ciphertext key =
     (if ciphertext = [] then Inr []
      else case decrypt_body lib r ciphertext key of
             Inl error \<Rightarrow> Inl (Error (js ''Failed to decrypt data - wrong master password?''))
           | Inr plaintext \<Rightarrow> Inr plaintext)"

subsection \<open>Master password validation\<close>

datatype strength = Weak | Medium | Strong | VeryStrong

record validation =
  isValid :: bool
  message :: "jsstring option"
  strength :: strength

text \<open>The four character classes of the regular expressions, on code units.\<close>

definition is_lower :: "16 word \<Rightarrow> bool" where
  "is_lower c = (0x61 \<le> c \<and> c \<le> 0x7A)"

definition is_upper :: "16 word \<Rightarrow> bool" where
  "is_upper c = (0x41 \<le> c \<and> c \<le> 0x5A)"

definition is_digit :: "16 word \<Rightarrow> bool" where
  "is_digit c = (0x30 \<le> c \<and> c \<le> 0x39)"

definition is_other :: "16 word \<Rightarrow> bool" where
  "is_other c = (\<not> is_lower c \<and> \<not> is_upper c \<and> \<not> is_digit c)"

definition score :: "jsstring \<Rightarrow> nat" where
  "score password =
     (if length password \<ge> 12 then 1 else 0)
   + (if length password \<ge> 16 then 1 else 0)
   + (if list_ex is_lower password \<and> list_ex is_upper password then 1 else 0)
   + (if list_ex is_digit password then 1 else 0)
   + (if list_ex is_other password then 1 else 0)"

definition strength_of_score :: "nat \<Rightarrow> strength" where
  "strength_of_score n =
     (if n \<le> 1 then Weak
      else if n = 2 then Medium
      else if n = 3 \<or> n = 4 then Strong
      else VeryStrong)"

definition validateMasterPassword :: "jsstring \<Rightarrow> validation" where
  "validateMasterPassword password =
     (if length password < 8
      then \<lparr>isValid = False,
            message = Some (js ''Master password must be at least 8 characters''),
            strength = Weak\<rparr>
      else if strength_of_score (score password) = Weak
      then \<lparr>isValid = True,
            message = Some (js ''Consider using a stronger master password''),
            strength = Weak\<rparr>
      else \<lparr>isValid = True, message = None,
            strength = strength_of_score (score password)\<rparr>)"

section \<open>crypto-js: the passphrase cipher\<close>

text \<open>
  What \<open>CryptoJS.AES.encrypt\<close>, \<open>CryptoJS.AES.decrypt\<close> and \<open>toString(CryptoJS.enc.Utf8)\<close>
  compute when the key is a string, as \<open>crypto.ts\<close> calls them. The key is a passphrase: an
  AES-256 key and an IV are derived from it and from a salt of eight bytes with the OpenSSL
  key derivation (MD5, one iteration); the message is padded and encrypted in CBC mode;
  the result is written in the OpenSSL format. The ciphertext carries no authentication:
  under any passphrase decryption yields bytes, and the padding is removed unchecked.
  A byte list stands for a word array of the library, the words in big-endian order.
\<close>

type_synonym byte = "8 word"

definition chunks :: "nat \<Rightarrow> 'a list \<Rightarrow> 'a list list" where
  "chunks n xs = map (\<lambda>i. take n (drop (i * n) xs)) [0..<(length xs + n - 1) div n]"

subsection \<open>UTF-8\<close>

text \<open>
  \<open>Utf8.parse\<close> is \<open>unescape(encodeURIComponent(s))\<close>: the UTF-8 bytes of the code points of
  the string, and a \<open>URIError\<close> for a surrogate that has no partner. \<open>Utf8.stringify\<close> is
  \<open>decodeURIComponent(escape(s))\<close> of the bytes: their decoding, and an error for bytes that
  are no UTF-8 (overlong forms, surrogates and code points above \<open>0x10FFFF\<close> included).
\<close>

fun utf16_code_points :: "jsstring \<Rightarrow> nat list option" where
  "utf16_code_points [] = Some []"
| "utf16_code_points [c] = (if 0xD800 \<le> c \<and> c \<le> 0xDFFF then None else Some [unat c])"
| "utf16_code_points (c # d # cs) =
     (if 0xD800 \<le> c \<and> c \<le> 0xDBFF
      then (if 0xDC00 \<le> d \<and> d \<le> 0xDFFF
            then map_option (Cons (0x10000 + (unat c - 0xD800) * 0x400 + (unat d - 0xDC00)))
                   (utf16_code_points cs)
            else None)
      else if 0xDC00 \<le> c \<and> c \<le> 0xDFFF then None
      else map_option (Cons (unat c)) (utf16_code_points (d # cs)))"

definition utf8_bytes :: "nat \<Rightarrow> byte list" where
  "utf8_bytes cp =
     (if cp < 0x80 then [of_nat cp]
      else if cp < 0x800 then [of_nat (0xC0 + cp div 0x40), of_nat (0x80 + cp mod 0x40)]
      else if cp < 0x10000
      then [of_nat (0xE0 + cp div 0x1000), of_nat (0x80 + cp div 0x40 mod 0x40),
            of_nat (0x80 + cp mod 0x40)]
      else [of_nat (0xF0 + cp div 0x40000), of_nat (0x80 + cp div 0x1000 mod 0x40),
            of_nat (0x80 + cp div 0x40 mod 0x40), of_nat (0x80 + cp mod 0x40)])"

definition Utf8_parse :: "jsstring \<Rightarrow> js_error + byte list" where
  "Utf8_parse s =
     (case utf16_code_points s of
        None \<Rightarrow> Inl (Error (js ''URI malformed''))
      | Some cps \<Rightarrow> Inr (concat (map utf8_bytes cps)))"

definition utf16_units :: "nat \<Rightarrow> jsstring" where
  "utf16_units cp =
     (if cp < 0x10000 then [of_nat cp]
      else [of_nat (0xD800 + (cp - 0x10000) div 0x400), of_nat (0xDC00 + (cp - 0x10000) mod 0x400)])"

fun utf8_decode :: "nat \<Rightarrow> nat \<Rightarrow> nat \<Rightarrow> byte list \<Rightarrow> jsstring option" where
  "utf8_decode need cp lo [] = (if need = 0 then Some [] else None)"
| "utf8_decode need cp lo (b # bs) =
     (if need = 0
      then (if b < 0x80 then map_option (Cons (ucast b)) (utf8_decode 0 0 0 bs)
            else if 0xC2 \<le> b \<and> b \<le> 0xDF then utf8_decode 1 (unat b - 0xC0) 0x80 bs
            else if 0xE0 \<le> b \<and> b \<le> 0xEF then utf8_decode 2 (unat b - 0xE0) 0x800 bs
            else if 0xF0 \<le> b \<and> b \<le> 0xF4 then utf8_decode 3 (unat b - 0xF0) 0x10000 bs
            else None)
      else if 0x80 \<le> b \<and> b \<le> 0xBF
      then (if need = 1
            then (if cp * 0x40 + (unat b - 0x80) < lo
                     \<or> (0xD800 \<le> cp * 0x40 + (unat b - 0x80) \<and> cp * 0x40 + (unat b - 0x80) \<le> 0xDFFF)
                     \<or> 0x10FFFF < cp * 0x40 + (unat b - 0x80)
                  then None
                  else map_option (\<lambda>s. utf16_units (cp * 0x40 + (unat b - 0x80)) @ s)
                         (utf8_decode 0 0 0 bs))
            else utf8_decode (need - 1) (cp * 0x40 + (unat b - 0x80)) lo bs)
      else None)"

definition CryptoJS_Utf8_stringify :: "byte list \<Rightarrow> js_error + jsstring" where
  "CryptoJS_Utf8_stringify bytes =
     (case utf8_decode 0 0 0 bytes of
        None \<Rightarrow> Inl (Error (js ''Malformed UTF-8 data''))
      | Some s \<Rightarrow> Inr s)"

subsection \<open>Base64\<close>

text \<open>
  \<open>Base64.stringify\<close> writes three bytes as four characters and pads with \<open>=\<close>.
  \<open>Base64.parse\<close> reads up to the first \<open>=\<close>; a character outside the alphabet counts for
  six zero bits.
\<close>

definition b64_char :: "nat \<Rightarrow> 16 word" where
  "b64_char i =
     (if i < 26 then of_nat (0x41 + i)
      else if i < 52 then of_nat (0x61 + (i - 26))
      else if i < 62 then of_nat (0x30 + (i - 52))
      else if i = 62 then 0x2B else 0x2F)"

definition b64_index :: "16 word \<Rightarrow> nat" where
  "b64_index c =
     (if 0x41 \<le> c \<and> c \<le> 0x5A then unat c - 0x41
      else if 0x61 \<le> c \<and> c \<le> 0x7A then unat c - 0x61 + 26
      else if 0x30 \<le> c \<and> c \<le> 0x39 then unat c - 0x30 + 52
      else if c = 0x2B then 62
      else if c = 0x2F then 63
      else 0)"

fun b64_encode :: "nat list \<Rightarrow> jsstring" where
  "b64_encode (a # b # c # rest) =
     [b64_char (a div 4), b64_char (a mod 4 * 16 + b div 16),
      b64_char (b mod 16 * 4 + c div 64), b64_char (c mod 64)] @ b64_encode rest"
| "b64_encode [a, b] =
     [b64_char (a div 4), b64_char (a mod 4 * 16 + b div 16), b64_char (b mod 16 * 4), 0x3D]"
| "b64_encode [a] = [b64_char (a div 4), b64_char (a mod 4 * 16), 0x3D, 0x3D]"
| "b64_encode [] = []"

definition Base64_stringify :: "byte list \<Rightarrow> jsstring" where
  "Base64_stringify bytes = b64_encode (map unat bytes)"

fun b64_decode :: "nat list \<Rightarrow> nat list" where
  "b64_decode (a # b # c # d # rest) =
     [a * 4 + b div 16, b mod 16 * 16 + c div 4, c mod 4 * 64 + d] @ b64_decode rest"
| "b64_decode [a, b, c] = [a * 4 + b div 16, b mod 16 * 16 + c div 4]"
| "b64_decode [a, b] = [a * 4 + b div 16]"
| "b64_decode [a] = []"
| "b64_decode [] = []"

definition Base64_parse :: "jsstring \<Rightarrow> byte list" where
  "Base64_parse s = map of_nat (b64_decode (map b64_index (takeWhile (\<lambda>c. c \<noteq> 0x3D) s)))"

subsection \<open>MD5\<close>

text \<open>
  A 32-bit word is a natural number below \<open>2 ^ 32\<close>: sums and left shifts are reduced
  modulo \<open>2 ^ 32\<close>, and the complement \<open>~x\<close> is \<open>x XOR 0xFFFFFFFF\<close>.
\<close>

definition rotl32 :: "nat \<Rightarrow> nat \<Rightarrow> nat" where
  "rotl32 x s = push_bit s x mod 0x100000000 OR drop_bit (32 - s) x"

definition FF :: "nat \<Rightarrow> nat \<Rightarrow> nat \<Rightarrow> nat" where
  "FF b c d = (b AND c) OR ((b XOR 0xFFFFFFFF) AND d)"

definition GG :: "nat \<Rightarrow> nat \<Rightarrow> nat \<Rightarrow> nat" where
  "GG b c d = (b AND d) OR (c AND (d XOR 0xFFFFFFFF))"

definition HH :: "nat \<Rightarrow> nat \<Rightarrow> nat \<Rightarrow> nat" where
  "HH b c d = b XOR c XOR d"

definition II :: "nat \<Rightarrow> nat \<Rightarrow> nat \<Rightarrow> nat" where
  "II b c d = c XOR (b OR (d XOR 0xFFFFFFFF))"

type_synonym md5_state = "nat \<times> nat \<times> nat \<times> nat"

fun md5_op :: "(nat \<Rightarrow> nat \<Rightarrow> nat \<Rightarrow> nat) \<Rightarrow> nat list \<Rightarrow> nat \<times> nat \<times> nat \<Rightarrow> md5_state \<Rightarrow> md5_state" where
  "md5_op f M (k, s, g) (a, b, c, d) =
     (d, (b + rotl32 ((a + f b c d + M ! g + k) mod 0x100000000) s) mod 0x100000000, b, c)"

definition T1 :: "(nat \<times> nat \<times> nat) list" where
  "T1 = [(0xD76AA478, 7, 0), (0xE8C7B756, 12, 1), (0x242070DB, 17, 2), (0xC1BDCEEE, 22, 3),
         (0xF57C0FAF, 7, 4), (0x4787C62A, 12, 5), (0xA8304613, 17, 6), (0xFD469501, 22, 7),
         (0x698098D8, 7, 8), (0x8B44F7AF, 12, 9), (0xFFFF5BB1, 17, 10), (0x895CD7BE, 22, 11),
         (0x6B901122, 7, 12), (0xFD987193, 12, 13), (0xA679438E, 17, 14), (0x49B40821, 22, 15)]"

definition T2 :: "(nat \<times> nat \<times> nat) list" where
  "T2 = [(0xF61E2562, 5, 1), (0xC040B340, 9, 6), (0x265E5A51, 14, 11), (0xE9B6C7AA, 20, 0),
         (0xD62F105D, 5, 5), (0x02441453, 9, 10), (0xD8A1E681, 14, 15), (0xE7D3FBC8, 20, 4),
         (0x21E1CDE6, 5, 9), (0xC33707D6, 9, 14), (0xF4D50D87, 14, 3), (0x455A14ED, 20, 8),
         (0xA9E3E905, 5, 13), (0xFCEFA3F8, 9, 2), (0x676F02D9, 14, 7), (0x8D2A4C8A, 20, 12)]"

definition T3 :: "(nat \<times> nat \<times> nat) list" where
  "T3 = [(0xFFFA3942, 4, 5), (0x8771F681, 11, 8), (0x6D9D6122, 16, 11), (0xFDE5380C, 23, 14),
         (0xA4BEEA44, 4, 1), (0x4BDECFA9, 11, 4), (0xF6BB4B60, 16, 7), (0xBEBFBC70, 23, 10),
         (0x289B7EC6, 4, 13), (0xEAA127FA, 11, 0), (0xD4EF3085, 16, 3), (0x04881D05, 23, 6),
         (0xD9D4D039, 4, 9), (0xE6DB99E5, 11, 12), (0x1FA27CF8, 16, 15), (0xC4AC5665, 23, 2)]"

definition T4 :: "(nat \<times> nat \<times> nat) list" where
  "T4 = [(0xF4292244, 6, 0), (0x432AFF97, 10, 7), (0xAB9423A7, 15, 14), (0xFC93A039, 21, 5),
         (0x655B59C3, 6, 12), (0x8F0CCC92, 10, 3), (0xFFEFF47D, 15, 10), (0x85845DD1, 21, 1),
         (0x6FA87E4F, 6, 8), (0xFE2CE6E0, 10, 15), (0xA3014314, 15, 6), (0x4E0811A1, 21, 13),
         (0xF7537E82, 6, 4), (0xBD3AF235, 10, 11), (0x2AD7D2BB, 15, 2), (0xEB86D391, 21, 9)]"

fun md5_add :: "md5_state \<Rightarrow> md5_state \<Rightarrow> md5_state" where
  "md5_add (a, b, c, d) (a', b', c', d') =
     ((a + a') mod 0x100000000, (b + b') mod 0x100000000, (c + c') mod 0x100000000,
      (d + d') mod 0x100000000)"

definition md5_block :: "md5_state \<Rightarrow> nat list \<Rightarrow> md5_state" where
  "md5_block H M =
     md5_add H (fold (md5_op II M) T4 (fold (md5_op HH M) T3
                 (fold (md5_op GG M) T2 (fold (md5_op FF M) T1 H))))"

fun word_le :: "byte list \<Rightarrow> nat" where
  "word_le [b0, b1, b2, b3] = unat b0 + 0x100 * unat b1 + 0x10000 * unat b2 + 0x1000000 * unat b3"
| "word_le bs = 0"

definition bytes_le :: "nat \<Rightarrow> byte list" where
  "bytes_le w =
     [of_nat (w mod 0x100), of_nat (w div 0x100 mod 0x100), of_nat (w div 0x10000 mod 0x100),
      of_nat (w div 0x1000000 mod 0x100)]"

definition md5_pad :: "byte list \<Rightarrow> byte list" where
  "md5_pad m =
     m @ [0x80] @ replicate ((64 - (length m + 9) mod 64) mod 64) 0 @
     map (\<lambda>i. of_nat (8 * length m div 0x100 ^ i mod 0x100)) [0..<8]"

fun md5_out :: "md5_state \<Rightarrow> byte list" where
  "md5_out (a, b, c, d) = bytes_le a @ bytes_le b @ bytes_le c @ bytes_le d"

fun md5_blocks :: "md5_state \<Rightarrow> byte list list \<Rightarrow> md5_state" where
  "md5_blocks H [] = H"
| "md5_blocks H (blk # blks) = md5_blocks (md5_block H (map word_le (chunks 4 blk))) blks"

definition MD5 :: "byte list \<Rightarrow> byte list" where
  "MD5 m =
     md5_out (md5_blocks (0x67452301, 0xEFCDAB89, 0x98BADCFE, 0x10325476)
                (chunks 64 (md5_pad m)))"

subsection \<open>The OpenSSL key derivation\<close>

text \<open>
  \<open>EvpKDF\<close> with MD5 and one iteration: each block is the digest of the block before, the
  password and the salt. Twelve words are derived, eight for the key and four for the IV.
\<close>

definition EvpKDF :: "byte list \<Rightarrow> byte list \<Rightarrow> byte list" where
  "EvpKDF password salt =
     (let d1 = MD5 (password @ salt);
          d2 = MD5 (d1 @ password @ salt);
          d3 = MD5 (d2 @ password @ salt)
      in d1 @ d2 @ d3)"

subsection \<open>AES-256\<close>

text \<open>
  The block cipher on a state of sixteen bytes, column by column, with the fourteen rounds
  of a 256-bit key. The S-box and its inverse are tables of sixteen rows; \<open>xtime\<close> doubles
  in the field of 256 elements.
\<close>

definition SBOX :: "byte list list" where
  "SBOX =
   [[0x63, 0x7C, 0x77, 0x7B, 0xF2, 0x6B, 0x6F, 0xC5, 0x30, 0x01, 0x67, 0x2B, 0xFE, 0xD7, 0xAB, 0x76],
   [0xCA, 0x82, 0xC9, 0x7D, 0xFA, 0x59, 0x47, 0xF0, 0xAD, 0xD4, 0xA2, 0xAF, 0x9C, 0xA4, 0x72, 0xC0],
   [0xB7, 0xFD, 0x93, 0x26, 0x36, 0x3F, 0xF7, 0xCC, 0x34, 0xA5, 0xE5, 0xF1, 0x71, 0xD8, 0x31, 0x15],
   [0x04, 0xC7, 0x23, 0xC3, 0x18, 0x96, 0x05, 0x9A, 0x07, 0x12, 0x80, 0xE2, 0xEB, 0x27, 0xB2, 0x75],
   [0x09, 0x83, 0x2C, 0x1A, 0x1B, 0x6E, 0x5A, 0xA0, 0x52, 0x3B, 0xD6, 0xB3, 0x29, 0xE3, 0x2F, 0x84],
   [0x53, 0xD1, 0x00, 0xED, 0x20, 0xFC, 0xB1, 0x5B, 0x6A, 0xCB, 0xBE, 0x39, 0x4A, 0x4C, 0x58, 0xCF],
   [0xD0, 0xEF, 0xAA, 0xFB, 0x43, 0x4D, 0x33, 0x85, 0x45, 0xF9, 0x02, 0x7F, 0x50, 0x3C, 0x9F, 0xA8],
   [0x51, 0xA3, 0x40, 0x8F, 0x92, 0x9D, 0x38, 0xF5, 0xBC, 0xB6, 0xDA, 0x21, 0x10, 0xFF, 0xF3, 0xD2],
   [0xCD, 0x0C, 0x13, 0xEC, 0x5F, 0x97, 0x44, 0x17, 0xC4, 0xA7, 0x7E, 0x3D, 0x64, 0x5D, 0x19, 0x73],
   [0x60, 0x81, 0x4F, 0xDC, 0x22, 0x2A, 0x90, 0x88, 0x46, 0xEE, 0xB8, 0x14, 0xDE, 0x5E, 0x0B, 0xDB],
   [0xE0, 0x32, 0x3A, 0x0A, 0x49, 0x06, 0x24, 0x5C, 0xC2, 0xD3, 0xAC, 0x62, 0x91, 0x95, 0xE4, 0x79],
   [0xE7, 0xC8, 0x37, 0x6D, 0x8D, 0xD5, 0x4E, 0xA9, 0x6C, 0x56, 0xF4, 0xEA, 0x65, 0x7A, 0xAE, 0x08],
   [0xBA, 0x78, 0x25, 0x2E, 0x1C, 0xA6, 0xB4, 0xC6, 0xE8, 0xDD, 0x74, 0x1F, 0x4B, 0xBD, 0x8B, 0x8A],
   [0x70, 0x3E, 0xB5, 0x66, 0x48, 0x03, 0xF6, 0x0E, 0x61, 0x35, 0x57, 0xB9, 0x86, 0xC1, 0x1D, 0x9E],
   [0xE1, 0xF8, 0x98, 0x11, 0x69, 0xD9, 0x8E, 0x94, 0x9B, 0x1E, 0x87, 0xE9, 0xCE, 0x55, 0x28, 0xDF],
   [0x8C, 0xA1, 0x89, 0x0D, 0xBF, 0xE6, 0x42, 0x68, 0x41, 0x99, 0x2D, 0x0F, 0xB0, 0x54, 0xBB, 0x16]]"

definition INV_SBOX :: "byte list list" where
  "INV_SBOX =
   [[0x52, 0x09, 0x6A, 0xD5, 0x30, 0x36, 0xA5, 0x38, 0xBF, 0x40, 0xA3, 0x9E, 0x81, 0xF3, 0xD7, 0xFB],
   [0x7C, 0xE3, 0x39, 0x82, 0x9B, 0x2F, 0xFF, 0x87, 0x34, 0x8E, 0x43, 0x44, 0xC4, 0xDE, 0xE9, 0xCB],
   [0x54, 0x7B, 0x94, 0x32, 0xA6, 0xC2, 0x23, 0x3D, 0xEE, 0x4C, 0x95, 0x0B, 0x42, 0xFA, 0xC3, 0x4E],
   [0x08, 0x2E, 0xA1, 0x66, 0x28, 0xD9, 0x24, 0xB2, 0x76, 0x5B, 0xA2, 0x49, 0x6D, 0x8B, 0xD1, 0x25],
   [0x72, 0xF8, 0xF6, 0x64, 0x86, 0x68, 0x98, 0x16, 0xD4, 0xA4, 0x5C, 0xCC, 0x5D, 0x65, 0xB6, 0x92],
   [0x6C, 0x70, 0x48, 0x50, 0xFD, 0xED, 0xB9, 0xDA, 0x5E, 0x15, 0x46, 0x57, 0xA7, 0x8D, 0x9D, 0x84],
   [0x90, 0xD8, 0xAB, 0x00, 0x8C, 0xBC, 0xD3, 0x0A, 0xF7, 0xE4, 0x58, 0x05, 0xB8, 0xB3, 0x45, 0x06],
   [0xD0, 0x2C, 0x1E, 0x8F, 0xCA, 0x3F, 0x0F, 0x02, 0xC1, 0xAF, 0xBD, 0x03, 0x01, 0x13, 0x8A, 0x6B],
   [0x3A, 0x91, 0x11, 0x41, 0x4F, 0x67, 0xDC, 0xEA, 0x97, 0xF2, 0xCF, 0xCE, 0xF0, 0xB4, 0xE6, 0x73],
   [0x96, 0xAC, 0x74, 0x22, 0xE7, 0xAD, 0x35, 0x85, 0xE2, 0xF9, 0x37, 0xE8, 0x1C, 0x75, 0xDF, 0x6E],
   [0x47, 0xF1, 0x1A, 0x71, 0x1D, 0x29, 0xC5, 0x89, 0x6F, 0xB7, 0x62, 0x0E, 0xAA, 0x18, 0xBE, 0x1B],
   [0xFC, 0x56, 0x3E, 0x4B, 0xC6, 0xD2, 0x79, 0x20, 0x9A, 0xDB, 0xC0, 0xFE, 0x78, 0xCD, 0x5A, 0xF4],
   [0x1F, 0xDD, 0xA8, 0x33, 0x88, 0x07, 0xC7, 0x31, 0xB1, 0x12, 0x10, 0x59, 0x27, 0x80, 0xEC, 0x5F],
   [0x60, 0x51, 0x7F, 0xA9, 0x19, 0xB5, 0x4A, 0x0D, 0x2D, 0xE5, 0x7A, 0x9F, 0x93, 0xC9, 0x9C, 0xEF],
   [0xA0, 0xE0, 0x3B, 0x4D, 0xAE, 0x2A, 0xF5, 0xB0, 0xC8, 0xEB, 0xBB, 0x3C, 0x83, 0x53, 0x99, 0x61],
   [0x17, 0x2B, 0x04, 0x7E, 0xBA, 0x77, 0xD6, 0x26, 0xE1, 0x69, 0x14, 0x63, 0x55, 0x21, 0x0C, 0x7D]]"

definition sub_byte :: "byte \<Rightarrow> byte" where
  "sub_byte b = SBOX ! unat (drop_bit 4 b) ! unat (b AND 0x0F)"

definition inv_sub_byte :: "byte \<Rightarrow> byte" where
  "inv_sub_byte b = INV_SBOX ! unat (drop_bit 4 b) ! unat (b AND 0x0F)"

definition xtime :: "byte \<Rightarrow> byte" where
  "xtime b = (if bit b 7 then push_bit 1 b XOR 0x1B else push_bit 1 b)"

definition xor_bytes :: "byte list \<Rightarrow> byte list \<Rightarrow> byte list" where
  "xor_bytes xs ys = map2 (XOR) xs ys"

fun shift_rows :: "byte list \<Rightarrow> byte list" where
  "shift_rows [s0, s1, s2, s3, s4, s5, s6, s7, s8, s9, s10, s11, s12, s13, s14, s15] =
     [s0, s5, s10, s15, s4, s9, s14, s3, s8, s13, s2, s7, s12, s1, s6, s11]"
| "shift_rows s = s"

fun inv_shift_rows :: "byte list \<Rightarrow> byte list" where
  "inv_shift_rows [s0, s1, s2, s3, s4, s5, s6, s7, s8, s9, s10, s11, s12, s13, s14, s15] =
     [s0, s13, s10, s7, s4, s1, s14, s11, s8, s5, s2, s15, s12, s9, s6, s3]"
| "inv_shift_rows s = s"

fun mix_column :: "byte list \<Rightarrow> byte list" where
  "mix_column [a, b, c, d] =
     [xtime a XOR (xtime b XOR b) XOR c XOR d,
      a XOR xtime b XOR (xtime c XOR c) XOR d,
      a XOR b XOR xtime c XOR (xtime d XOR d),
      (xtime a XOR a) XOR b XOR c XOR xtime d]"
| "mix_column col = col"

definition mix_columns :: "byte list \<Rightarrow> byte list" where
  "mix_columns s = concat (map mix_column (chunks 4 s))"

fun muls4 :: "byte \<Rightarrow> byte \<Rightarrow> byte \<Rightarrow> byte \<Rightarrow> byte list" where
  "muls4 x x2 x4 x8 = [x8 XOR x, x8 XOR x2 XOR x, x8 XOR x4 XOR x, x8 XOR x4 XOR x2]"

fun muls3 :: "byte \<Rightarrow> byte \<Rightarrow> byte \<Rightarrow> byte list" where
  "muls3 x x2 x4 = muls4 x x2 x4 (xtime x4)"

fun muls2 :: "byte \<Rightarrow> byte \<Rightarrow> byte list" where
  "muls2 x x2 = muls3 x x2 (xtime x2)"

definition muls :: "byte \<Rightarrow> byte list" where
  "muls x = muls2 x (xtime x)"

fun inv_mix :: "byte list \<Rightarrow> byte list \<Rightarrow> byte list \<Rightarrow> byte list \<Rightarrow> byte list" where
  "inv_mix [a9, a11, a13, a14] [b9, b11, b13, b14] [c9, c11, c13, c14] [d9, d11, d13, d14] =
     [a14 XOR b11 XOR c13 XOR d9,
      a9 XOR b14 XOR c11 XOR d13,
      a13 XOR b9 XOR c14 XOR d11,
      a11 XOR b13 XOR c9 XOR d14]"
| "inv_mix a b c d = []"

fun inv_mix_column :: "byte list \<Rightarrow> byte list" where
  "inv_mix_column [a, b, c, d] = inv_mix (muls a) (muls b) (muls c) (muls d)"
| "inv_mix_column col = col"

definition inv_mix_columns :: "byte list \<Rightarrow> byte list" where
  "inv_mix_columns s = concat (map inv_mix_column (chunks 4 s))"

fun rot_word :: "byte list \<Rightarrow> byte list" where
  "rot_word [a, b, c, d] = [b, c, d, a]"
| "rot_word w = w"

text \<open>
  The key schedule of a 256-bit key, eight words at a time: the first word of a group from
  the last word of the group before, every other word from the word before it (through the
  S-box for the fifth), each combined with the word eight places back.
\<close>

fun key_words :: "nat \<Rightarrow> byte list \<Rightarrow> byte list list \<Rightarrow> byte list list" where
  "key_words i t [] = [t]"
| "key_words i t (w # ws) =
     t # key_words (i + 1) (xor_bytes w (if i = 3 then map sub_byte t else t)) ws"

fun next_words :: "byte \<Rightarrow> byte list list \<Rightarrow> byte list list" where
  "next_words rcon [w0, w1, w2, w3, w4, w5, w6, w7] =
     key_words 0 (xor_bytes w0 (xor_bytes (map sub_byte (rot_word w7)) [rcon, 0, 0, 0]))
       [w1, w2, w3, w4, w5, w6, w7]"
| "next_words rcon ws = []"

fun expand :: "byte list \<Rightarrow> byte list list \<Rightarrow> byte list list" where
  "expand [] ws = []"
| "expand (rcon # rcons) ws = ws @ expand rcons (next_words rcon ws)"

definition key_schedule :: "byte list \<Rightarrow> byte list list" where
  "key_schedule key =
     chunks 16 (concat (take 60
       (expand [0x01, 0x02, 0x04, 0x08, 0x10, 0x20, 0x40, 0x80] (chunks 4 key))))"

fun rounds :: "byte list list \<Rightarrow> byte list \<Rightarrow> byte list" where
  "rounds [] s = s"
| "rounds [k] s = xor_bytes (shift_rows (map sub_byte s)) k"
| "rounds (k # k' # ks) s =
     rounds (k' # ks) (xor_bytes (mix_columns (shift_rows (map sub_byte s))) k)"

definition encryptBlock :: "byte list list \<Rightarrow> byte list \<Rightarrow> byte list" where
  "encryptBlock ks blk = rounds (tl ks) (xor_bytes blk (hd ks))"

fun inv_rounds :: "byte list list \<Rightarrow> byte list \<Rightarrow> byte list" where
  "inv_rounds [] s = s"
| "inv_rounds [k] s = xor_bytes (map inv_sub_byte (inv_shift_rows s)) k"
| "inv_rounds (k # k' # ks) s =
     inv_rounds (k' # ks)
       (inv_mix_columns (xor_bytes (map inv_sub_byte (inv_shift_rows s)) k))"

definition decryptBlock :: "byte list list \<Rightarrow> byte list \<Rightarrow> byte list" where
  "decryptBlock ks blk = inv_rounds (tl (rev ks)) (xor_bytes blk (last ks))"

subsection \<open>CBC mode and PKCS7 padding\<close>

text \<open>
  \<open>Pkcs7.pad\<close> always adds between one and sixteen bytes, each the number of bytes added.
  \<open>Pkcs7.unpad\<close> checks nothing: it reads the low byte of the 32-bit word that holds the
  last byte and shortens the array by that many bytes, down to the empty array. The
  decryptor fills a last incomplete block with zeros.
\<close>

fun cbc_encrypt :: "byte list list \<Rightarrow> byte list \<Rightarrow> byte list list \<Rightarrow> byte list" where
  "cbc_encrypt ks prev [] = []"
| "cbc_encrypt ks prev (blk # blks) =
     (let c = encryptBlock ks (xor_bytes blk prev) in c @ cbc_encrypt ks c blks)"

fun cbc_decrypt :: "byte list list \<Rightarrow> byte list \<Rightarrow> byte list list \<Rightarrow> byte list" where
  "cbc_decrypt ks prev [] = []"
| "cbc_decrypt ks prev (blk # blks) =
     xor_bytes (decryptBlock ks blk) prev @ cbc_decrypt ks blk blks"

definition pkcs7_pad :: "byte list \<Rightarrow> byte list" where
  "pkcs7_pad m = m @ replicate (16 - length m mod 16) (of_nat (16 - length m mod 16))"

definition zero_fill :: "byte list \<Rightarrow> byte list" where
  "zero_fill c = c @ replicate ((16 - length c mod 16) mod 16) 0"

definition unpad :: "nat \<Rightarrow> byte list \<Rightarrow> byte list" where
  "unpad sigBytes d =
     (if sigBytes = 0 then []
      else take (sigBytes - unat (d ! ((sigBytes - 1) div 4 * 4 + 3))) d)"

subsection \<open>The OpenSSL format\<close>

text \<open>
  The ciphertext string is the Base64 text of the eight bytes \<open>Salted__\<close>, the salt and the
  encrypted blocks. A string that does not start with \<open>Salted__\<close> is read as encrypted
  blocks only; the key is then derived with a salt drawn at random.
\<close>

definition Salted :: "byte list" where
  "Salted = [0x53, 0x61, 0x6C, 0x74, 0x65, 0x64, 0x5F, 0x5F]"

definition OpenSSL_stringify :: "byte list \<Rightarrow> byte list \<Rightarrow> jsstring" where
  "OpenSSL_stringify salt ciphertext = Base64_stringify (Salted @ salt @ ciphertext)"

definition OpenSSL_parse :: "jsstring \<Rightarrow> byte list option \<times> byte list" where
  "OpenSSL_parse s =
     (case Base64_parse s of bytes \<Rightarrow>
      if take 8 bytes = Salted
      then (Some (take (4 * min 2 ((length bytes - 8 + 3) div 4)) (drop 8 bytes @ replicate 8 0)),
            drop 16 bytes)
      else (None, bytes))"

definition salt_bytes :: "64 word \<Rightarrow> byte list" where
  "salt_bytes r = map (\<lambda>i. of_nat (unat r div 0x100 ^ (7 - i) mod 0x100)) [0..<8]"

text \<open>The first 32 derived bytes are the key, the next 16 the IV.\<close>

definition encrypt_with :: "byte list \<Rightarrow> byte list \<Rightarrow> byte list" where
  "encrypt_with derived msg =
     cbc_encrypt (key_schedule (take 32 derived)) (take 16 (drop 32 derived))
       (chunks 16 (pkcs7_pad msg))"

definition decrypt_with :: "byte list \<Rightarrow> byte list \<Rightarrow> byte list" where
  "decrypt_with derived c =
     unpad (length c)
       (cbc_decrypt (key_schedule (take 32 derived)) (take 16 (drop 32 derived))
          (chunks 16 (zero_fill c)))"

text \<open>
  \<open>CryptoJS.AES.encrypt(plaintext, key).toString()\<close> and \<open>CryptoJS.AES.decrypt(ciphertext, key)\<close>
  for a key that is a string; \<open>r\<close> is the random salt.
\<close>

definition CryptoJS_AES_encrypt :: "64 word \<Rightarrow> jsstring \<Rightarrow> jsstring \<Rightarrow> js_error + jsstring" where
  "CryptoJS_AES_encrypt r plaintext key =
     (case Utf8_parse key of
        Inl e \<Rightarrow> Inl e
      | Inr password \<Rightarrow>
          (case Utf8_parse plaintext of
             Inl e \<Rightarrow> Inl e
           | Inr msg \<Rightarrow>
               Inr (OpenSSL_stringify (salt_bytes r)
                      (encrypt_with (EvpKDF password (salt_bytes r)) msg))))"

definition CryptoJS_AES_decrypt :: "64 word \<Rightarrow> jsstring \<Rightarrow> jsstring \<Rightarrow> js_error + byte list" where
  "CryptoJS_AES_decrypt r ciphertext key =
     (case OpenSSL_parse ciphertext of
        (salt, c) \<Rightarrow>
          (case Utf8_parse key of
             Inl e \<Rightarrow> Inl e
           | Inr password \<Rightarrow>
               Inr (decrypt_with
                      (EvpKDF password (case salt of None \<Rightarrow> salt_bytes r | Some s \<Rightarrow> s)) c)))"

definition CryptoJS :: "(64 word, byte list) cryptojs" where
  "CryptoJS =
     \<lparr>AES_encrypt = CryptoJS_AES_encrypt,
      AES_decrypt = CryptoJS_AES_decrypt,
      Utf8_stringify = CryptoJS_Utf8_stringify\<rparr>"

section \<open>src/contexts/EncryptionContext.tsx\<close>

text \<open>The two pieces of React state of \<open>EncryptionProvider\<close>.\<close>

record encryption_state =
  encryptionKey :: "jsstring option"
  isLocked :: bool

definition setupEncryptionKey ::
  "cryptojs_kdf \<Rightarrow> jsstring \<Rightarrow> jsstring \<Rightarrow> encryption_state \<Rightarrow> bool \<times> encryption_state" where
  "setupEncryptionKey lib masterPassword email st =
     (if \<not> isValid (validateMasterPassword masterPassword) then (False, st)
      else case deriveKey lib masterPassword email of
             Inl error \<Rightarrow> (False, st)
           | Inr key \<Rightarrow> (True, st\<lparr>encryptionKey := Some key, isLocked := False\<rparr>))"

section \<open>The server\<close>

subsection \<open>Documents, sessions, responses\<close>

text \<open>
  A field read from a JSON body, and an optional field of a document, is \<open>None\<close> when it is
  absent (\<open>undefined\<close>). Fields that hold something other than a string are outside the
  model. \<open>truthy\<close> is JavaScript's truthiness on such a value, \<open>or_else v d\<close> is \<open>v || d\<close>.
\<close>

definition truthy :: "jsstring option \<Rightarrow> bool" where
  "truthy v = (case v of None \<Rightarrow> False | Some s \<Rightarrow> s \<noteq> [])"

definition or_else :: "jsstring option \<Rightarrow> jsstring \<Rightarrow> jsstring" where
  "or_else v d = (case v of None \<Rightarrow> d | Some s \<Rightarrow> if s = [] then d else s)"

text \<open>
  \<open>IUser\<close> of \<open>src/models/User.ts\<close>. The schema has \<open>timestamps: true\<close>, so mongoose sets
  \<open>updatedAt\<close> when a changed document is saved.
\<close>

record IUser =
  email :: jsstring
  user_password :: jsstring
  masterPasswordHash :: "jsstring option"
  user_createdAt :: nat
  user_updatedAt :: nat

text \<open>
  Modelled from the spec: the schema of \<open>VaultItem\<close> (\<open>src/models/VaultItem.ts\<close> is not among
  the sources). A record belongs to one owner and has a title, four optional attributes
  stored as strings, and creation and modification timestamps assigned by the store; the
  field names are those the route handlers and \<open>DecryptedVaultItem\<close> use. The \<open>_id\<close> of a
  document is its key in the collection.
\<close>

record vault_item =
  userId :: jsstring
  title :: jsstring
  username :: jsstring
  password :: jsstring
  url :: jsstring
  notes_text :: jsstring
  createdAt :: nat
  updatedAt :: nat

text \<open>
  The database: two collections, each a map from \<open>_id\<close> to document (MongoDB keeps \<open>_id\<close>
  unique within a collection). Connection failures and identifiers that mongoose cannot cast
  are outside the model; with them every handler answers 500 from its \<open>catch\<close>.
\<close>

record db =
  users :: "jsstring \<rightharpoonup> IUser"
  vaultItems :: "jsstring \<rightharpoonup> vault_item"

record session_user =
  id_session :: jsstring
  email_session :: jsstring

record session =
  user :: "session_user option"

datatype body =
    ErrorBody jsstring
  | ItemBody jsstring vault_item
  | MessageBody jsstring
  | HasMasterPasswordBody bool
  | SuccessBody jsstring
  | ValidBody bool jsstring
  | SuccessWarningBody jsstring jsstring

datatype response = NextResponse_json body nat

definition Unauthorized :: response where
  "Unauthorized = NextResponse_json (ErrorBody (js ''Unauthorized'')) 401"

subsection \<open>/api/vault/:id\<close>








subsection \<open>/api/master-password\<close>

text \<open>
  bcryptjs is a dependency: \<open>bcrypt_hash r s rounds\<close> is \<open>bcrypt.hash(s, rounds)\<close> with \<open>r\<close> the
  random salt it draws, \<open>bcrypt_compare s h\<close> is \<open>bcrypt.compare(s, h)\<close>. Both may reject.
\<close>

record 'r bcryptjs =
  bcrypt_hash :: "'r \<Rightarrow> jsstring \<Rightarrow> nat \<Rightarrow> js_error + jsstring"
  bcrypt_compare :: "jsstring \<Rightarrow> jsstring \<Rightarrow> js_error + bool"

text \<open>\<open>user.save()\<close> after an assignment to \<open>user.masterPasswordHash\<close>.\<close>

definition save :: "db \<Rightarrow> jsstring \<Rightarrow> IUser \<Rightarrow> nat \<Rightarrow> db" where
  "save d i u now = d\<lparr>users := (users d)(i \<mapsto> u\<lparr>user_updatedAt := now\<rparr>)\<rparr>"

definition GET_master_password :: "session option \<Rightarrow> db \<Rightarrow> response" where
  "GET_master_password sess d =
     (case sess of
        None \<Rightarrow> Unauthorized
      | Some s \<Rightarrow>
          (case user s of
             None \<Rightarrow> Unauthorized
           | Some su \<Rightarrow>
               (case users d (id_session su) of
                  None \<Rightarrow>
                    NextResponse_json (ErrorBody (js ''User not found. Please login again.'')) 404
                | Some u \<Rightarrow>
                    NextResponse_json (HasMasterPasswordBody (truthy (masterPasswordHash u))) 200)))"

record master_password_request =
  masterPassword :: "jsstring option"
  action :: "jsstring option"

definition POST_set ::
  "'r bcryptjs \<Rightarrow> 'r \<Rightarrow> jsstring \<Rightarrow> IUser \<Rightarrow> jsstring \<Rightarrow> nat \<Rightarrow> db \<Rightarrow> response \<times> db" where
  "POST_set bc r uid u mp now d =
     (if truthy (masterPasswordHash u)
      then (NextResponse_json (ErrorBody (js ''Master password already set'')) 400, d)
      else case bcrypt_hash bc r mp 10 of
             Inl error \<Rightarrow>
               (NextResponse_json (ErrorBody (js ''Failed to process master password'')) 500, d)
           | Inr hash \<Rightarrow>
               (NextResponse_json (SuccessBody (js ''Master password set successfully'')) 200,
                save d uid (u\<lparr>masterPasswordHash := Some hash\<rparr>) now))"

definition POST_verify :: "'r bcryptjs \<Rightarrow> IUser \<Rightarrow> jsstring \<Rightarrow> response" where
  "POST_verify bc u mp =
     (case masterPasswordHash u of
        None \<Rightarrow> NextResponse_json (ErrorBody (js ''Master password not set yet'')) 400
      | Some h \<Rightarrow>
          if h = [] then NextResponse_json (ErrorBody (js ''Master password not set yet'')) 400
          else case bcrypt_compare bc mp h of
                 Inl error \<Rightarrow>
                   NextResponse_json (ErrorBody (js ''Failed to process master password'')) 500
               | Inr valid \<Rightarrow>
                   NextResponse_json
                     (ValidBody valid
                        (if valid then js ''Master password verified''
                         else js ''Invalid master password'')) 200)"

definition POST_master_password ::
  "'r bcryptjs \<Rightarrow> 'r \<Rightarrow> session option \<Rightarrow> js_error + master_password_request \<Rightarrow> nat \<Rightarrow> db
     \<Rightarrow> response \<times> db" where
  "POST_master_password bc r sess request_json now d =
     (case sess of
        None \<Rightarrow> (Unauthorized, d)
      | Some s \<Rightarrow>
          (case user s of
             None \<Rightarrow> (Unauthorized, d)
           | Some su \<Rightarrow>
               (case request_json of
                  Inl error \<Rightarrow>
                    (NextResponse_json (ErrorBody (js ''Failed to process master password'')) 500, d)
                | Inr req \<Rightarrow>
                    if \<not> truthy (masterPassword req)
                    then (NextResponse_json (ErrorBody (js ''Master password is required'')) 400, d)
                    else
                      (case users d (id_session su) of
                         None \<Rightarrow>
                           (NextResponse_json
                              (ErrorBody (js ''User not found. Please login again.'')) 404, d)
                       | Some u \<Rightarrow>
                           if action req = Some (js ''set'')
                           then POST_set bc r (id_session su) u (or_else (masterPassword req) []) now d
                           else if action req = Some (js ''verify'')
                           then (POST_verify bc u (or_else (masterPassword req) []), d)
                           else (NextResponse_json
                                   (ErrorBody (js ''Invalid action. Use \"set\" or \"verify\"'')) 400, d)))))"

record change_request =
  oldMasterPassword :: "jsstring option"
  newMasterPassword :: "jsstring option"

definition PUT_change ::
  "'r bcryptjs \<Rightarrow> 'r \<Rightarrow> jsstring \<Rightarrow> IUser \<Rightarrow> jsstring \<Rightarrow> jsstring \<Rightarrow> nat \<Rightarrow> db \<Rightarrow> response \<times> db" where
  "PUT_change bc r uid u old new now d =
     (case masterPasswordHash u of
        None \<Rightarrow> (NextResponse_json (ErrorBody (js ''No master password set'')) 400, d)
      | Some h \<Rightarrow>
          if h = [] then (NextResponse_json (ErrorBody (js ''No master password set'')) 400, d)
          else case bcrypt_compare bc old h of
                 Inl error \<Rightarrow>
                   (NextResponse_json (ErrorBody (js ''Failed to change master password'')) 500, d)
               | Inr isValidOld \<Rightarrow>
                   if \<not> isValidOld
                   then (NextResponse_json
                           (ErrorBody (js ''Old master password is incorrect'')) 401, d)
                   else case bcrypt_hash bc r new 10 of
                          Inl error \<Rightarrow>
                            (NextResponse_json
                               (ErrorBody (js ''Failed to change master password'')) 500, d)
                        | Inr newHash \<Rightarrow>
                            (NextResponse_json
                               (SuccessWarningBody (js ''Master password changed successfully'')
                                  (js ''All existing vault items are encrypted with the old master password. You will need to re-encrypt them.''))
                               200,
                             save d uid (u\<lparr>masterPasswordHash := Some newHash\<rparr>) now))"

definition PUT_master_password ::
  "'r bcryptjs \<Rightarrow> 'r \<Rightarrow> session option \<Rightarrow> js_error + change_request \<Rightarrow> nat \<Rightarrow> db
     \<Rightarrow> response \<times> db" where
  "PUT_master_password bc r sess request_json now d =
     (case sess of
        None \<Rightarrow> (Unauthorized, d)
      | Some s \<Rightarrow>
          (case user s of
             None \<Rightarrow> (Unauthorized, d)
           | Some su \<Rightarrow>
               (case request_json of
                  Inl error \<Rightarrow>
                    (NextResponse_json (ErrorBody (js ''Failed to change master password'')) 500, d)
                | Inr req \<Rightarrow>
                    if \<not> truthy (oldMasterPassword req) \<or> \<not> truthy (newMasterPassword req)
                    then (NextResponse_json
                            (ErrorBody (js ''Both old and new master passwords are required'')) 400, d)
                    else
                      (case users d (id_session su) of
                         None \<Rightarrow> (NextResponse_json (ErrorBody (js ''User not found'')) 404, d)
                       | Some u \<Rightarrow>
                           PUT_change bc r (id_session su) u
                             (or_else (oldMasterPassword req) [])
                             (or_else (newMasterPassword req) []) now d))))"

section \<open>src/components/MasterPasswordPrompt.tsx\<close>

text \<open>
  What \<open>handleSubmit\<close> ends with: an error shown in the form (\<open>setError\<close>), the alert and
  redirect to the login page, or the call of \<open>onSubmit\<close> with the master password.
\<close>

datatype submit_outcome = SetError jsstring | SessionInvalid | OnSubmit jsstring

definition response_status :: "response \<Rightarrow> nat" where
  "response_status resp = (case resp of NextResponse_json b st \<Rightarrow> st)"

definition response_ok :: "response \<Rightarrow> bool" where
  "response_ok resp = (200 \<le> response_status resp \<and> response_status resp \<le> 299)"

definition data_error :: "response \<Rightarrow> jsstring option" where
  "data_error resp = (case resp of NextResponse_json (ErrorBody e) st \<Rightarrow> Some e | _ \<Rightarrow> None)"

definition data_valid :: "response \<Rightarrow> bool" where
  "data_valid resp = (case resp of NextResponse_json (ValidBody v m) st \<Rightarrow> v | _ \<Rightarrow> False)"

definition wrong_master_password_text :: jsstring where
  "wrong_master_password_text =
     [0xC3, 0xA2, 0xC2, 0x9D, 0xC5, 0x2019] @
     js '' Wrong master password! Please enter the correct master password you set initially.''"

text \<open>
  \<open>fetch('/api/master-password', {method: 'POST', ...})\<close> runs the route handler above on the
  server's database with the caller's session; a failing network is outside the model.
\<close>

definition handleSubmit ::
  "'r bcryptjs \<Rightarrow> 'r \<Rightarrow> session option \<Rightarrow> nat \<Rightarrow> bool \<Rightarrow> jsstring \<Rightarrow> db \<Rightarrow> submit_outcome \<times> db" where
  "handleSubmit bc r sess now isFirstTime mp d =
     (let validation = validateMasterPassword mp in
      if \<not> isValid validation
      then (SetError (or_else (message validation) (js ''Invalid master password'')), d)
      else if strength validation = Weak
      then (SetError (or_else (message validation) (js ''Master password is too weak'')), d)
      else if isFirstTime
      then
        (case POST_master_password bc r sess
                (Inr \<lparr>masterPassword = Some mp, action = Some (js ''set'')\<rparr>) now d of
           (resp, d') \<Rightarrow>
             if response_status resp = 404 then (SessionInvalid, d')
             else if \<not> response_ok resp
             then (SetError (or_else (data_error resp) (js ''Failed to set master password'')), d')
             else (OnSubmit mp, d'))
      else
        (case POST_master_password bc r sess
                (Inr \<lparr>masterPassword = Some mp, action = Some (js ''verify'')\<rparr>) now d of
           (resp, d') \<Rightarrow>
             if \<not> data_valid resp then (SetError wrong_master_password_text, d')
             else (OnSubmit mp, d')))"

section \<open>src/lib/vault-export.ts\<close>

text \<open>
  The values \<open>JSON.parse\<close> returns. A number is an IEEE double: a real number or an
  infinity (\<open>JSON.parse("1e999")\<close>); the text of a JSON document cannot denote NaN. An
  object lists its properties in order, each key once (\<open>JSON.parse\<close> keeps the last of a
  repeated key).
\<close>

datatype jsnumber = Finite real | PosInfinity | NegInfinity

datatype json =
    JNull
  | JBool bool
  | JNumber jsnumber
  | JString jsstring
  | JArray "json list"
  | JObject "(jsstring \<times> json) list"

text \<open>
  \<open>data.name\<close> for one of the two names the function reads: a \<open>TypeError\<close> on \<open>null\<close>, the
  property of an object, and \<open>undefined\<close> (\<open>None\<close>) on every other value, whose prototypes
  have neither a \<open>version\<close> nor an \<open>items\<close>.
\<close>

definition get_property :: "json \<Rightarrow> jsstring \<Rightarrow> js_error + json option" where
  "get_property data name =
     (case data of
        JNull \<Rightarrow> Inl (Error (js ''Cannot read properties of null (reading '' @ [0x27] @ name @ [0x27] @ js '')''))
      | JObject props \<Rightarrow> Inr (map_of props name)
      | _ \<Rightarrow> Inr None)"

definition json_truthy :: "json option \<Rightarrow> bool" where
  "json_truthy v =
     (case v of
        None \<Rightarrow> False
      | Some JNull \<Rightarrow> False
      | Some (JBool b) \<Rightarrow> b
      | Some (JNumber n) \<Rightarrow> n \<noteq> Finite 0
      | Some (JString s) \<Rightarrow> s \<noteq> []
      | Some (JArray xs) \<Rightarrow> True
      | Some (JObject props) \<Rightarrow> True)"

definition Array_isArray :: "json option \<Rightarrow> bool" where
  "Array_isArray v = (case v of Some (JArray xs) \<Rightarrow> True | _ \<Rightarrow> False)"

definition error_message :: "js_error \<Rightarrow> jsstring" where
  "error_message e = (case e of Error m \<Rightarrow> m)"

text \<open>
  \<open>JSON.parse\<close> is a built-in: the argument \<open>parsed\<close> is the outcome of
  \<open>JSON.parse(jsonString)\<close>, a thrown \<open>SyntaxError\<close> or the value. In the body of the \<open>try\<close>
  the condition \<open>!data.version || !data.items || !Array.isArray(data.items)\<close> is evaluated
  left to right, and only its first property access can throw.
\<close>

definition parseImportedVault_body :: "js_error + json \<Rightarrow> js_error + json" where
  "parseImportedVault_body parsed =
     (case parsed of
        Inl e \<Rightarrow> Inl e
      | Inr data \<Rightarrow>
          (case get_property data (js ''version'') of
             Inl e \<Rightarrow> Inl e
           | Inr version \<Rightarrow>
               if \<not> json_truthy version then Inl (Error (js ''Invalid vault export format''))
               else
                 (case get_property data (js ''items'') of
                    Inl e \<Rightarrow> Inl e
                  | Inr items \<Rightarrow>
                      if \<not> json_truthy items \<or> \<not> Array_isArray items
                      then Inl (Error (js ''Invalid vault export format''))
                      else Inr data)))"

definition parseImportedVault :: "js_error + json \<Rightarrow> js_error + json" where
  "parseImportedVault parsed =
     (case parseImportedVault_body parsed of
        Inl error \<Rightarrow> Inl (Error (js ''Failed to parse vault file: '' @ error_message error))
      | Inr data \<Rightarrow> Inr data)"

text \<open>
  The two readings of "the bundle has a version tag and a list of items": the tag is
  present, or the tag is truthy.
\<close>

definition items_is_array :: "json \<Rightarrow> bool" where
  "items_is_array data =
     (case data of
        JObject props \<Rightarrow> (case map_of props (js ''items'') of Some (JArray xs) \<Rightarrow> True | _ \<Rightarrow> False)
      | _ \<Rightarrow> False)"

definition version_present :: "json \<Rightarrow> bool" where
  "version_present data =
     (case data of
        JObject props \<Rightarrow> (case map_of props (js ''version'') of Some v \<Rightarrow> True | None \<Rightarrow> False)
      | _ \<Rightarrow> False)"

definition version_truthy :: "json \<Rightarrow> bool" where
  "version_truthy data =
     (case data of
        JObject props \<Rightarrow> json_truthy (map_of props (js ''version''))
      | _ \<Rightarrow> False)"

section \<open>Concrete inputs\<close>

text \<open>
  Stand-ins with the interfaces of the two libraries, used only to run the definitions above
  at concrete inputs. They are not the libraries: \<open>toy_bcrypt\<close> keeps the secret behind the
  salt, \<open>toy_cryptojs\<close> shifts every code unit by the first code unit of the key, and
  \<open>toy_kdf\<close> appends the salt to the password.
\<close>

definition toy_bcrypt :: "(16 word) bcryptjs" where
  "toy_bcrypt =
     \<lparr>bcrypt_hash = (\<lambda>r s rounds. Inr (r # s)),
      bcrypt_compare = (\<lambda>s h. Inr (h \<noteq> [] \<and> tl h = s))\<rparr>"



definition toy_kdf :: cryptojs_kdf where
  "toy_kdf =
     \<lparr>SHA256_hex = (\<lambda>data. Inr data),
      PBKDF2_hex = (\<lambda>p salt keySize iterations. Inr (p @ salt))\<rparr>"

text \<open>Two owners; the one vault item belongs to the second.\<close>

definition alice :: "session option" where
  "alice = Some \<lparr>user = Some \<lparr>id_session = js ''a1'', email_session = js ''alice@example.com''\<rparr>\<rparr>"

definition bob :: "session option" where
  "bob = Some \<lparr>user = Some \<lparr>id_session = js ''b2'', email_session = js ''bob@example.com''\<rparr>\<rparr>"

definition bobs_item :: vault_item where
  "bobs_item =
     \<lparr>userId = js ''b2'', title = js ''U2FsdGVkX18x'', username = [], password = [],
      url = [], notes_text = [], createdAt = 1, updatedAt = 1\<rparr>"

definition example_db :: db where
  "example_db =
     \<lparr>users =
        [js ''a1'' \<mapsto> \<lparr>email = js ''alice@example.com'', user_password = js ''$2b$10$a'',
                        masterPasswordHash = None, user_createdAt = 0, user_updatedAt = 0\<rparr>,
         js ''b2'' \<mapsto> \<lparr>email = js ''bob@example.com'', user_password = js ''$2b$10$b'',
                        masterPasswordHash = None, user_createdAt = 0, user_updatedAt = 0\<rparr>],
      vaultItems = [js ''i9'' \<mapsto> bobs_item]\<rparr>"



text \<open>Alice sets her master password, asks to verify it, and asks to change it.\<close>

definition set_request :: "js_error + master_password_request" where
  "set_request = Inr \<lparr>masterPassword = Some (js ''LongEnough1!''), action = Some (js ''set'')\<rparr>"

definition example_db_set :: db where
  "example_db_set = snd (POST_master_password toy_bcrypt 7 alice set_request 5 example_db)"

definition verify_empty_request :: "js_error + master_password_request" where
  "verify_empty_request = Inr \<lparr>masterPassword = Some [], action = Some (js ''verify'')\<rparr>"

definition verify_request :: "js_error + master_password_request" where
  "verify_request =
     Inr \<lparr>masterPassword = Some (js ''LongEnough1!''), action = Some (js ''verify'')\<rparr>"

definition change_to_empty_request :: "js_error + change_request" where
  "change_to_empty_request =
     Inr \<lparr>oldMasterPassword = Some (js ''wrong''), newMasterPassword = Some []\<rparr>"

definition change_request :: "js_error + change_request" where
  "change_request =
     Inr \<lparr>oldMasterPassword = Some (js ''LongEnough1!''),
          newMasterPassword = Some (js ''EvenLonger2!'')\<rparr>"

text \<open>
  What \<open>JSON.parse\<close> returns for \<open>{"version":"","items":[]}\<close> and for
  \<open>{"version":"1.0.0","exportedAt":"2024-01-01T00:00:00.000Z","items":[],"itemCount":0}\<close>.
\<close>

definition empty_version_bundle :: json where
  "empty_version_bundle = JObject [(js ''version'', JString []), (js ''items'', JArray [])]"

definition empty_vault_bundle :: json where
  "empty_vault_bundle =
     JObject [(js ''version'', JString (js ''1.0.0'')),
              (js ''exportedAt'', JString (js ''2024-01-01T00:00:00.000Z'')),
              (js ''items'', JArray []),
              (js ''itemCount'', JNumber (Finite 0))]"

section \<open>Auxiliary facts\<close>

lemma js_empty_iff [simp]: "(js s = []) = (s = [])"
  by (simp add: js_def)

lemma unat_of_char: "unat (of_char c :: 16 word) = of_char c"
proof -
  have "(of_char c :: nat) < 65536"
    by (rule less_trans [OF nat_of_char_less_256]) simp
  then have "unat (of_nat (of_char c) :: 16 word) = of_char c"
    by (simp add: unat_of_nat)
  then show ?thesis
    by (simp only: of_nat_of_char)
qed

lemma of_char_word_eq_iff [simp]: "((of_char c :: 16 word) = of_char d) = (c = d)"
proof
  assume "(of_char c :: 16 word) = of_char d"
  then have "unat (of_char c :: 16 word) = unat (of_char d :: 16 word)"
    by simp
  then show "c = d"
    by (simp add: unat_of_char)
qed simp

lemma js_eq_iff [simp]: "(js s = js t) = (s = t)"
  unfolding js_def by (rule inj_map_eq_map) (simp add: inj_on_def)

lemma validate_short:
  "length s < 8 \<Longrightarrow> validateMasterPassword s =
     \<lparr>isValid = False, message = Some (js ''Master password must be at least 8 characters''),
      strength = Weak\<rparr>"
  by (simp add: validateMasterPassword_def)

lemma validate_weak:
  "8 \<le> length s \<Longrightarrow> strength_of_score (score s) = Weak \<Longrightarrow> validateMasterPassword s =
     \<lparr>isValid = True, message = Some (js ''Consider using a stronger master password''),
      strength = Weak\<rparr>"
  by (simp add: validateMasterPassword_def)

lemma score_aaaaaaaa: "score (js ''aaaaaaaa'') = 0"
  by (simp add: score_def js_def is_lower_def is_upper_def is_digit_def is_other_def)

lemma validate_aaaaaaaa:
  "validateMasterPassword (js ''aaaaaaaa'') =
     \<lparr>isValid = True, message = Some (js ''Consider using a stronger master password''),
      strength = Weak\<rparr>"
  by (rule validate_weak) (simp add: js_def, simp add: score_aaaaaaaa strength_of_score_def)

section \<open>The passphrase cipher at concrete inputs\<close>

text \<open>
  The plaintext \<open>p@ss1\<close> is encrypted under the key \<open>key1\<close> with the salt \<open>01 02 .. 08\<close>, and
  the result is decrypted under \<open>key1\<close>, \<open>key2\<close> and \<open>key39\<close>. Every value is computed by
  rewriting with the definitions: first the MD5 digests of the key derivation and the AES
  blocks, then the calls of the library from them.
\<close>

lemma upt_eval: "[i..<j] = (if i < j then i # [i + 1..<j] else [])"
  by (simp add: upt_rec)

lemma replicate_eval: "replicate n x = (if n = 0 then [] else x # replicate (n - 1) x)"
  by (cases n) simp_all

lemma md5_round1:
  "fold (md5_op f M) T1 H =
      md5_op f M (0x49B40821, 22, 15) (md5_op f M (0xA679438E, 17, 14) (
      md5_op f M (0xFD987193, 12, 13) (md5_op f M (0x6B901122, 7, 12) (
      md5_op f M (0x895CD7BE, 22, 11) (md5_op f M (0xFFFF5BB1, 17, 10) (
      md5_op f M (0x8B44F7AF, 12, 9) (md5_op f M (0x698098D8, 7, 8) (
      md5_op f M (0xFD469501, 22, 7) (md5_op f M (0xA8304613, 17, 6) (
      md5_op f M (0x4787C62A, 12, 5) (md5_op f M (0xF57C0FAF, 7, 4) (
      md5_op f M (0xC1BDCEEE, 22, 3) (md5_op f M (0x242070DB, 17, 2) (
      md5_op f M (0xE8C7B756, 12, 1) (md5_op f M (0xD76AA478, 7, 0) H
      )))))))))))))))"
  by (simp only: T1_def fold_simps)

lemma md5_round2:
  "fold (md5_op f M) T2 H =
      md5_op f M (0x8D2A4C8A, 20, 12) (md5_op f M (0x676F02D9, 14, 7) (
      md5_op f M (0xFCEFA3F8, 9, 2) (md5_op f M (0xA9E3E905, 5, 13) (
      md5_op f M (0x455A14ED, 20, 8) (md5_op f M (0xF4D50D87, 14, 3) (
      md5_op f M (0xC33707D6, 9, 14) (md5_op f M (0x21E1CDE6, 5, 9) (
      md5_op f M (0xE7D3FBC8, 20, 4) (md5_op f M (0xD8A1E681, 14, 15) (
      md5_op f M (0x02441453, 9, 10) (md5_op f M (0xD62F105D, 5, 5) (
      md5_op f M (0xE9B6C7AA, 20, 0) (md5_op f M (0x265E5A51, 14, 11) (
      md5_op f M (0xC040B340, 9, 6) (md5_op f M (0xF61E2562, 5, 1) H
      )))))))))))))))"
  by (simp only: T2_def fold_simps)

lemma md5_round3:
  "fold (md5_op f M) T3 H =
      md5_op f M (0xC4AC5665, 23, 2) (md5_op f M (0x1FA27CF8, 16, 15) (
      md5_op f M (0xE6DB99E5, 11, 12) (md5_op f M (0xD9D4D039, 4, 9) (
      md5_op f M (0x04881D05, 23, 6) (md5_op f M (0xD4EF3085, 16, 3) (
      md5_op f M (0xEAA127FA, 11, 0) (md5_op f M (0x289B7EC6, 4, 13) (
      md5_op f M (0xBEBFBC70, 23, 10) (md5_op f M (0xF6BB4B60, 16, 7) (
      md5_op f M (0x4BDECFA9, 11, 4) (md5_op f M (0xA4BEEA44, 4, 1) (
      md5_op f M (0xFDE5380C, 23, 14) (md5_op f M (0x6D9D6122, 16, 11) (
      md5_op f M (0x8771F681, 11, 8) (md5_op f M (0xFFFA3942, 4, 5) H
      )))))))))))))))"
  by (simp only: T3_def fold_simps)

lemma md5_round4:
  "fold (md5_op f M) T4 H =
      md5_op f M (0xEB86D391, 21, 9) (md5_op f M (0x2AD7D2BB, 15, 2) (
      md5_op f M (0xBD3AF235, 10, 11) (md5_op f M (0xF7537E82, 6, 4) (
      md5_op f M (0x4E0811A1, 21, 13) (md5_op f M (0xA3014314, 15, 6) (
      md5_op f M (0xFE2CE6E0, 10, 15) (md5_op f M (0x6FA87E4F, 6, 8) (
      md5_op f M (0x85845DD1, 21, 1) (md5_op f M (0xFFEFF47D, 15, 10) (
      md5_op f M (0x8F0CCC92, 10, 3) (md5_op f M (0x655B59C3, 6, 12) (
      md5_op f M (0xFC93A039, 21, 5) (md5_op f M (0xAB9423A7, 15, 14) (
      md5_op f M (0x432AFF97, 10, 7) (md5_op f M (0xF4292244, 6, 0) H
      )))))))))))))))"
  by (simp only: T4_def fold_simps)

lemmas md5_eval = MD5_def md5_pad_def chunks_def FF_def GG_def HH_def II_def rotl32_def
  bytes_le_def upt_eval replicate_eval md5_block_def md5_round1 md5_round2 md5_round3 md5_round4

lemmas aes_eval = key_schedule_def encryptBlock_def decryptBlock_def chunks_def upt_eval
  sub_byte_def inv_sub_byte_def SBOX_def INV_SBOX_def xor_bytes_def mix_columns_def
  inv_mix_columns_def muls_def xtime_def

lemma md5_key1_1:
  "MD5 [0x6B, 0x65, 0x79, 0x31, 0x01, 0x02, 0x03, 0x04, 0x05, 0x06, 0x07, 0x08] =
     [0xAF, 0x41, 0x40, 0xEA, 0x5B, 0x9E, 0xF0, 0x33, 0xD8, 0xA0, 0x57, 0xAF, 0x81, 0x32, 0xB2, 0xA1]"
  by (simp add: md5_eval)

lemma md5_key1_2:
  "MD5 [0xAF, 0x41, 0x40, 0xEA, 0x5B, 0x9E, 0xF0, 0x33, 0xD8, 0xA0, 0x57, 0xAF, 0x81, 0x32, 0xB2, 0xA1,
         0x6B, 0x65, 0x79, 0x31, 0x01, 0x02, 0x03, 0x04, 0x05, 0x06, 0x07, 0x08] =
     [0x4C, 0x8B, 0x8C, 0x83, 0x0B, 0xDD, 0xA0, 0x89, 0x53, 0x98, 0x11, 0x5B, 0x75, 0xFE, 0x21, 0x3A]"
  by (simp add: md5_eval)

lemma md5_key1_3:
  "MD5 [0x4C, 0x8B, 0x8C, 0x83, 0x0B, 0xDD, 0xA0, 0x89, 0x53, 0x98, 0x11, 0x5B, 0x75, 0xFE, 0x21, 0x3A,
         0x6B, 0x65, 0x79, 0x31, 0x01, 0x02, 0x03, 0x04, 0x05, 0x06, 0x07, 0x08] =
     [0xE6, 0x78, 0x71, 0xE5, 0x56, 0x04, 0x25, 0x5A, 0x80, 0x1B, 0x17, 0x39, 0x94, 0x5A, 0x93, 0x97]"
  by (simp add: md5_eval)

lemma md5_key39_1:
  "MD5 [0x6B, 0x65, 0x79, 0x33, 0x39, 0x01, 0x02, 0x03, 0x04, 0x05, 0x06, 0x07, 0x08] =
     [0x24, 0xD7, 0x5B, 0xB9, 0x5A, 0x48, 0x9C, 0x67, 0x57, 0x6D, 0x6A, 0xA5, 0xEA, 0xA6, 0x82, 0x48]"
  by (simp add: md5_eval)

lemma md5_key39_2:
  "MD5 [0x24, 0xD7, 0x5B, 0xB9, 0x5A, 0x48, 0x9C, 0x67, 0x57, 0x6D, 0x6A, 0xA5, 0xEA, 0xA6, 0x82, 0x48,
         0x6B, 0x65, 0x79, 0x33, 0x39, 0x01, 0x02, 0x03, 0x04, 0x05, 0x06, 0x07, 0x08] =
     [0x4D, 0x1A, 0x40, 0x39, 0xA2, 0x13, 0xE5, 0x3B, 0xC4, 0x08, 0x7A, 0xED, 0xB0, 0xD6, 0xD6, 0xDC]"
  by (simp add: md5_eval)

lemma md5_key39_3:
  "MD5 [0x4D, 0x1A, 0x40, 0x39, 0xA2, 0x13, 0xE5, 0x3B, 0xC4, 0x08, 0x7A, 0xED, 0xB0, 0xD6, 0xD6, 0xDC,
         0x6B, 0x65, 0x79, 0x33, 0x39, 0x01, 0x02, 0x03, 0x04, 0x05, 0x06, 0x07, 0x08] =
     [0x3E, 0xA5, 0x7A, 0x37, 0x28, 0x87, 0x92, 0xD4, 0x0F, 0x0E, 0x7C, 0xB5, 0x27, 0x36, 0x88, 0xB5]"
  by (simp add: md5_eval)

lemma md5_key2_1:
  "MD5 [0x6B, 0x65, 0x79, 0x32, 0x01, 0x02, 0x03, 0x04, 0x05, 0x06, 0x07, 0x08] =
     [0xB2, 0xD5, 0xD3, 0x17, 0xDA, 0x46, 0x6F, 0x23, 0x4F, 0x89, 0xF6, 0xC6, 0x17, 0x9B, 0xA2, 0xB7]"
  by (simp add: md5_eval)

lemma md5_key2_2:
  "MD5 [0xB2, 0xD5, 0xD3, 0x17, 0xDA, 0x46, 0x6F, 0x23, 0x4F, 0x89, 0xF6, 0xC6, 0x17, 0x9B, 0xA2, 0xB7,
         0x6B, 0x65, 0x79, 0x32, 0x01, 0x02, 0x03, 0x04, 0x05, 0x06, 0x07, 0x08] =
     [0x17, 0x27, 0x60, 0xBE, 0x5D, 0x2C, 0xF2, 0x9D, 0xD0, 0xC9, 0x67, 0x48, 0x6B, 0x91, 0xC0, 0x37]"
  by (simp add: md5_eval)

lemma md5_key2_3:
  "MD5 [0x17, 0x27, 0x60, 0xBE, 0x5D, 0x2C, 0xF2, 0x9D, 0xD0, 0xC9, 0x67, 0x48, 0x6B, 0x91, 0xC0, 0x37,
         0x6B, 0x65, 0x79, 0x32, 0x01, 0x02, 0x03, 0x04, 0x05, 0x06, 0x07, 0x08] =
     [0x16, 0x0F, 0x94, 0xFC, 0x39, 0x25, 0xC8, 0x77, 0xFA, 0x79, 0x6A, 0x29, 0x09, 0xEC, 0xBC, 0xFE]"
  by (simp add: md5_eval)

lemma encryptBlock_key1:
  "encryptBlock (key_schedule [0xAF, 0x41, 0x40, 0xEA, 0x5B, 0x9E, 0xF0, 0x33, 0xD8, 0xA0, 0x57, 0xAF, 0x81, 0x32, 0xB2, 0xA1,
                                      0x4C, 0x8B, 0x8C, 0x83, 0x0B, 0xDD, 0xA0, 0x89, 0x53, 0x98, 0x11, 0x5B, 0x75, 0xFE, 0x21, 0x3A])
     [0x96, 0x38, 0x02, 0x96, 0x67, 0x0F, 0x2E, 0x51, 0x8B, 0x10, 0x1C, 0x32, 0x9F, 0x51, 0x98, 0x9C] =
     [0xDD, 0x6A, 0x4E, 0x0C, 0xBC, 0xF1, 0x8B, 0xC3, 0xEE, 0xE7, 0xAF, 0x0A, 0xEB, 0x95, 0x2D, 0x5D]"
  by (simp add: aes_eval)

lemma decryptBlock_key39:
  "decryptBlock (key_schedule [0x24, 0xD7, 0x5B, 0xB9, 0x5A, 0x48, 0x9C, 0x67, 0x57, 0x6D, 0x6A, 0xA5, 0xEA, 0xA6, 0x82, 0x48,
                                      0x4D, 0x1A, 0x40, 0x39, 0xA2, 0x13, 0xE5, 0x3B, 0xC4, 0x08, 0x7A, 0xED, 0xB0, 0xD6, 0xD6, 0xDC])
     [0xDD, 0x6A, 0x4E, 0x0C, 0xBC, 0xF1, 0x8B, 0xC3, 0xEE, 0xE7, 0xAF, 0x0A, 0xEB, 0x95, 0x2D, 0x5D] =
     [0x13, 0x5C, 0xAC, 0x0B, 0x9B, 0x6A, 0xBF, 0x8C, 0x87, 0x0D, 0x59, 0x87, 0x62, 0x39, 0xB7, 0xBA]"
  by (simp add: aes_eval)

lemma decryptBlock_key2:
  "decryptBlock (key_schedule [0xB2, 0xD5, 0xD3, 0x17, 0xDA, 0x46, 0x6F, 0x23, 0x4F, 0x89, 0xF6, 0xC6, 0x17, 0x9B, 0xA2, 0xB7,
                                      0x17, 0x27, 0x60, 0xBE, 0x5D, 0x2C, 0xF2, 0x9D, 0xD0, 0xC9, 0x67, 0x48, 0x6B, 0x91, 0xC0, 0x37])
     [0xDD, 0x6A, 0x4E, 0x0C, 0xBC, 0xF1, 0x8B, 0xC3, 0xEE, 0xE7, 0xAF, 0x0A, 0xEB, 0x95, 0x2D, 0x5D] =
     [0xA4, 0xF6, 0xBB, 0x82, 0x6D, 0xAA, 0x05, 0x4B, 0x10, 0x28, 0x7A, 0xB4, 0x89, 0x92, 0x11, 0x1B]"
  by (simp add: aes_eval)

lemma decryptBlock_key1:
  "decryptBlock (key_schedule [0xAF, 0x41, 0x40, 0xEA, 0x5B, 0x9E, 0xF0, 0x33, 0xD8, 0xA0, 0x57, 0xAF, 0x81, 0x32, 0xB2, 0xA1,
                                      0x4C, 0x8B, 0x8C, 0x83, 0x0B, 0xDD, 0xA0, 0x89, 0x53, 0x98, 0x11, 0x5B, 0x75, 0xFE, 0x21, 0x3A])
     [0xDD, 0x6A, 0x4E, 0x0C, 0xBC, 0xF1, 0x8B, 0xC3, 0xEE, 0xE7, 0xAF, 0x0A, 0xEB, 0x95, 0x2D, 0x5D] =
     [0x96, 0x38, 0x02, 0x96, 0x67, 0x0F, 0x2E, 0x51, 0x8B, 0x10, 0x1C, 0x32, 0x9F, 0x51, 0x98, 0x9C]"
  by (simp add: aes_eval)

lemma Utf8_parse_key1: "Utf8_parse (js ''key1'') = Inr [0x6B, 0x65, 0x79, 0x31]"
  by (simp add: Utf8_parse_def js_def utf8_bytes_def)

lemma Utf8_parse_key39: "Utf8_parse (js ''key39'') = Inr [0x6B, 0x65, 0x79, 0x33, 0x39]"
  by (simp add: Utf8_parse_def js_def utf8_bytes_def)

lemma Utf8_parse_plaintext: "Utf8_parse (js ''p@ss1'') = Inr [0x70, 0x40, 0x73, 0x73, 0x31]"
  by (simp add: Utf8_parse_def js_def utf8_bytes_def)

lemma salt_bytes_example: "salt_bytes 0x0102030405060708 = [1, 2, 3, 4, 5, 6, 7, 8]"
  by (simp add: salt_bytes_def upt_eval)

lemma EvpKDF_key1:
  "EvpKDF [0x6B, 0x65, 0x79, 0x31] [1, 2, 3, 4, 5, 6, 7, 8] =
     [0xAF, 0x41, 0x40, 0xEA, 0x5B, 0x9E, 0xF0, 0x33, 0xD8, 0xA0, 0x57, 0xAF, 0x81, 0x32, 0xB2, 0xA1,
      0x4C, 0x8B, 0x8C, 0x83, 0x0B, 0xDD, 0xA0, 0x89, 0x53, 0x98, 0x11, 0x5B, 0x75, 0xFE, 0x21, 0x3A,
      0xE6, 0x78, 0x71, 0xE5, 0x56, 0x04, 0x25, 0x5A, 0x80, 0x1B, 0x17, 0x39, 0x94, 0x5A, 0x93, 0x97]"
  by (simp add: EvpKDF_def Let_def md5_key1_1 md5_key1_2 md5_key1_3)

lemma EvpKDF_key39:
  "EvpKDF [0x6B, 0x65, 0x79, 0x33, 0x39] [1, 2, 3, 4, 5, 6, 7, 8] =
     [0x24, 0xD7, 0x5B, 0xB9, 0x5A, 0x48, 0x9C, 0x67, 0x57, 0x6D, 0x6A, 0xA5, 0xEA, 0xA6, 0x82, 0x48,
      0x4D, 0x1A, 0x40, 0x39, 0xA2, 0x13, 0xE5, 0x3B, 0xC4, 0x08, 0x7A, 0xED, 0xB0, 0xD6, 0xD6, 0xDC,
      0x3E, 0xA5, 0x7A, 0x37, 0x28, 0x87, 0x92, 0xD4, 0x0F, 0x0E, 0x7C, 0xB5, 0x27, 0x36, 0x88, 0xB5]"
  by (simp add: EvpKDF_def Let_def md5_key39_1 md5_key39_2 md5_key39_3)

lemma encrypt_with_key1:
  "encrypt_with
     [0xAF, 0x41, 0x40, 0xEA, 0x5B, 0x9E, 0xF0, 0x33, 0xD8, 0xA0, 0x57, 0xAF, 0x81, 0x32, 0xB2, 0xA1,
      0x4C, 0x8B, 0x8C, 0x83, 0x0B, 0xDD, 0xA0, 0x89, 0x53, 0x98, 0x11, 0x5B, 0x75, 0xFE, 0x21, 0x3A,
      0xE6, 0x78, 0x71, 0xE5, 0x56, 0x04, 0x25, 0x5A, 0x80, 0x1B, 0x17, 0x39, 0x94, 0x5A, 0x93, 0x97]
     [0x70, 0x40, 0x73, 0x73, 0x31] =
     [0xDD, 0x6A, 0x4E, 0x0C, 0xBC, 0xF1, 0x8B, 0xC3, 0xEE, 0xE7, 0xAF, 0x0A, 0xEB, 0x95, 0x2D, 0x5D]"
  by (simp add: encrypt_with_def pkcs7_pad_def chunks_def upt_eval replicate_eval xor_bytes_def
      Let_def encryptBlock_key1)

lemma decrypt_with_key39:
  "decrypt_with
     [0x24, 0xD7, 0x5B, 0xB9, 0x5A, 0x48, 0x9C, 0x67, 0x57, 0x6D, 0x6A, 0xA5, 0xEA, 0xA6, 0x82, 0x48,
      0x4D, 0x1A, 0x40, 0x39, 0xA2, 0x13, 0xE5, 0x3B, 0xC4, 0x08, 0x7A, 0xED, 0xB0, 0xD6, 0xD6, 0xDC,
      0x3E, 0xA5, 0x7A, 0x37, 0x28, 0x87, 0x92, 0xD4, 0x0F, 0x0E, 0x7C, 0xB5, 0x27, 0x36, 0x88, 0xB5]
     [0xDD, 0x6A, 0x4E, 0x0C, 0xBC, 0xF1, 0x8B, 0xC3, 0xEE, 0xE7, 0xAF, 0x0A, 0xEB, 0x95, 0x2D, 0x5D] =
     [0x2D]"
  by (simp add: decrypt_with_def zero_fill_def unpad_def chunks_def upt_eval replicate_eval
      xor_bytes_def decryptBlock_key39)

lemma decrypt_with_key1:
  "decrypt_with
     [0xAF, 0x41, 0x40, 0xEA, 0x5B, 0x9E, 0xF0, 0x33, 0xD8, 0xA0, 0x57, 0xAF, 0x81, 0x32, 0xB2, 0xA1,
      0x4C, 0x8B, 0x8C, 0x83, 0x0B, 0xDD, 0xA0, 0x89, 0x53, 0x98, 0x11, 0x5B, 0x75, 0xFE, 0x21, 0x3A,
      0xE6, 0x78, 0x71, 0xE5, 0x56, 0x04, 0x25, 0x5A, 0x80, 0x1B, 0x17, 0x39, 0x94, 0x5A, 0x93, 0x97]
     [0xDD, 0x6A, 0x4E, 0x0C, 0xBC, 0xF1, 0x8B, 0xC3, 0xEE, 0xE7, 0xAF, 0x0A, 0xEB, 0x95, 0x2D, 0x5D] =
     [0x70, 0x40, 0x73, 0x73, 0x31]"
  by (simp add: decrypt_with_def zero_fill_def unpad_def chunks_def upt_eval replicate_eval
      xor_bytes_def decryptBlock_key1)

lemma OpenSSL_stringify_example:
  "OpenSSL_stringify [1, 2, 3, 4, 5, 6, 7, 8]
     [0xDD, 0x6A, 0x4E, 0x0C, 0xBC, 0xF1, 0x8B, 0xC3, 0xEE, 0xE7, 0xAF, 0x0A, 0xEB, 0x95, 0x2D, 0x5D] =
     js ''U2FsdGVkX18BAgMEBQYHCN1qTgy88YvD7uevCuuVLV0=''"
  by (simp add: OpenSSL_stringify_def Salted_def Base64_stringify_def b64_char_def js_def)

lemma OpenSSL_parse_example:
  "OpenSSL_parse (js ''U2FsdGVkX18BAgMEBQYHCN1qTgy88YvD7uevCuuVLV0='') =
     (Some [1, 2, 3, 4, 5, 6, 7, 8],
      [0xDD, 0x6A, 0x4E, 0x0C, 0xBC, 0xF1, 0x8B, 0xC3, 0xEE, 0xE7, 0xAF, 0x0A, 0xEB, 0x95, 0x2D, 0x5D])"
  by (simp add: OpenSSL_parse_def Salted_def Base64_parse_def b64_index_def js_def replicate_eval)

lemma CryptoJS_AES_encrypt_example:
  "CryptoJS_AES_encrypt 0x0102030405060708 (js ''p@ss1'') (js ''key1'') =
     Inr (js ''U2FsdGVkX18BAgMEBQYHCN1qTgy88YvD7uevCuuVLV0='')"
  by (simp only: CryptoJS_AES_encrypt_def Utf8_parse_key1 Utf8_parse_plaintext salt_bytes_example
      EvpKDF_key1 encrypt_with_key1 OpenSSL_stringify_example sum.case)

lemma CryptoJS_AES_decrypt_key39:
  "CryptoJS_AES_decrypt r (js ''U2FsdGVkX18BAgMEBQYHCN1qTgy88YvD7uevCuuVLV0='') (js ''key39'') =
     Inr [0x2D]"
  by (simp only: CryptoJS_AES_decrypt_def OpenSSL_parse_example Utf8_parse_key39 EvpKDF_key39
      decrypt_with_key39 sum.case option.case prod.case)

lemma CryptoJS_AES_decrypt_key1:
  "CryptoJS_AES_decrypt r (js ''U2FsdGVkX18BAgMEBQYHCN1qTgy88YvD7uevCuuVLV0='') (js ''key1'') =
     Inr [0x70, 0x40, 0x73, 0x73, 0x31]"
  by (simp only: CryptoJS_AES_decrypt_def OpenSSL_parse_example Utf8_parse_key1 EvpKDF_key1
      decrypt_with_key1 sum.case option.case prod.case)

lemma Utf8_parse_key2: "Utf8_parse (js ''key2'') = Inr [0x6B, 0x65, 0x79, 0x32]"
  by (simp add: Utf8_parse_def js_def utf8_bytes_def)

lemma EvpKDF_key2:
  "EvpKDF [0x6B, 0x65, 0x79, 0x32] [1, 2, 3, 4, 5, 6, 7, 8] =
     [0xB2, 0xD5, 0xD3, 0x17, 0xDA, 0x46, 0x6F, 0x23, 0x4F, 0x89, 0xF6, 0xC6, 0x17, 0x9B, 0xA2, 0xB7,
     0x17, 0x27, 0x60, 0xBE, 0x5D, 0x2C, 0xF2, 0x9D, 0xD0, 0xC9, 0x67, 0x48, 0x6B, 0x91, 0xC0, 0x37,
     0x16, 0x0F, 0x94, 0xFC, 0x39, 0x25, 0xC8, 0x77, 0xFA, 0x79, 0x6A, 0x29, 0x09, 0xEC, 0xBC, 0xFE]"
  by (simp add: EvpKDF_def Let_def md5_key2_1 md5_key2_2 md5_key2_3)

lemma decrypt_with_key2:
  "decrypt_with
     [0xB2, 0xD5, 0xD3, 0x17, 0xDA, 0x46, 0x6F, 0x23, 0x4F, 0x89, 0xF6, 0xC6, 0x17, 0x9B, 0xA2, 0xB7,
     0x17, 0x27, 0x60, 0xBE, 0x5D, 0x2C, 0xF2, 0x9D, 0xD0, 0xC9, 0x67, 0x48, 0x6B, 0x91, 0xC0, 0x37,
     0x16, 0x0F, 0x94, 0xFC, 0x39, 0x25, 0xC8, 0x77, 0xFA, 0x79, 0x6A, 0x29, 0x09, 0xEC, 0xBC, 0xFE]
     [0xDD, 0x6A, 0x4E, 0x0C, 0xBC, 0xF1, 0x8B, 0xC3, 0xEE, 0xE7, 0xAF, 0x0A, 0xEB, 0x95, 0x2D, 0x5D] =
     []"
  by (simp add: decrypt_with_def zero_fill_def unpad_def chunks_def upt_eval replicate_eval
      xor_bytes_def decryptBlock_key2)

lemma CryptoJS_AES_decrypt_key2:
  "CryptoJS_AES_decrypt r (js ''U2FsdGVkX18BAgMEBQYHCN1qTgy88YvD7uevCuuVLV0='') (js ''key2'') = Inr []"
  by (simp only: CryptoJS_AES_decrypt_def OpenSSL_parse_example Utf8_parse_key2 EvpKDF_key2
      decrypt_with_key2 sum.case option.case prod.case)

lemma CryptoJS_Utf8_stringify_dash: "CryptoJS_Utf8_stringify [0x2D] = Inr (js ''-'')"
  by (simp add: CryptoJS_Utf8_stringify_def js_def)

lemma CryptoJS_Utf8_stringify_plaintext:
  "CryptoJS_Utf8_stringify [0x70, 0x40, 0x73, 0x73, 0x31] = Inr (js ''p@ss1'')"
  by (simp add: CryptoJS_Utf8_stringify_def js_def)

text \<open>Under the key of the encryption, \<open>decrypt\<close> returns the plaintext.\<close>

lemma decrypt_key1_example:
  "decrypt CryptoJS 0 (js ''U2FsdGVkX18BAgMEBQYHCN1qTgy88YvD7uevCuuVLV0='') (js ''key1'') =
     Inr (js ''p@ss1'')"
  by (simp add: decrypt_def decrypt_body_def CryptoJS_def CryptoJS_AES_decrypt_key1
      CryptoJS_Utf8_stringify_plaintext)

text \<open>
  Decryption after encryption, for any plaintext, keys and salts: the Base64 text and the
  OpenSSL format are read back as they were written, so the bytes that \<open>AES.decrypt\<close> returns
  are the ciphertext blocks decrypted with the key and IV derived from the second key and
  the salt of the encryption.
\<close>

lemma unat_of_nat_16: "n < 65536 \<Longrightarrow> unat (of_nat n :: 16 word) = n"
  by (simp add: unat_of_nat)

lemma b64_index_unat:
  "b64_index c =
     (if 65 \<le> unat c \<and> unat c \<le> 90 then unat c - 65
      else if 97 \<le> unat c \<and> unat c \<le> 122 then unat c - 97 + 26
      else if 48 \<le> unat c \<and> unat c \<le> 57 then unat c - 48 + 52
      else if unat c = 43 then 62
      else if unat c = 47 then 63
      else 0)"
  by (simp add: b64_index_def word_le_nat_alt word_unat_eq_iff)

lemma b64_index_char: "i < 64 \<Longrightarrow> b64_index (b64_char i) = i \<and> b64_char i \<noteq> 0x3D"
proof -
  assume i: "i < 64"
  consider "i < 26" | "26 \<le> i" "i < 52" | "52 \<le> i" "i < 62" | "i = 62" | "i = 63"
    using i by linarith
  then have "b64_index (b64_char i) = i \<and> unat (b64_char i) \<noteq> 61"
  proof cases
    case 1
    have "b64_char i = of_nat (0x41 + i)"
      by (simp only: b64_char_def 1 if_True)
    moreover have "unat (of_nat (0x41 + i) :: 16 word) = 0x41 + i"
      using i by (intro unat_of_nat_16) simp
    ultimately have "unat (b64_char i) = 0x41 + i"
      by (simp only:)
    then show ?thesis
      using 1 by (auto simp add: b64_index_unat)
  next
    case 2
    have n: "\<not> i < 26"
      using 2 by simp
    have "b64_char i = of_nat (0x61 + (i - 26))"
      by (simp only: b64_char_def n 2 if_True if_False)
    moreover have "unat (of_nat (0x61 + (i - 26)) :: 16 word) = 0x61 + (i - 26)"
      using i by (intro unat_of_nat_16) simp
    ultimately have "unat (b64_char i) = 0x61 + (i - 26)"
      by (simp only:)
    then show ?thesis
      using 2 by (auto simp add: b64_index_unat)
  next
    case 3
    have n: "\<not> i < 26" "\<not> i < 52"
      using 3 by simp_all
    have "b64_char i = of_nat (0x30 + (i - 52))"
      by (simp only: b64_char_def n 3 if_True if_False)
    moreover have "unat (of_nat (0x30 + (i - 52)) :: 16 word) = 0x30 + (i - 52)"
      using i by (intro unat_of_nat_16) simp
    ultimately have "unat (b64_char i) = 0x30 + (i - 52)"
      by (simp only:)
    then show ?thesis
      using 3 by (auto simp add: b64_index_unat)
  next
    case 4
    then show ?thesis
      by (simp add: b64_index_unat b64_char_def)
  next
    case 5
    then show ?thesis
      by (simp add: b64_index_unat b64_char_def)
  qed
  then show ?thesis
    by (auto simp add: word_unat_eq_iff)
qed

lemma b64_first: "b < 256 \<Longrightarrow> (a div 4) * 4 + (a mod 4 * 16 + b div 16) div 16 = (a::nat)"
  by simp

lemma b64_second:
  assumes "b < 256" and "c < 256"
  shows "(a mod 4 * 16 + b div 16) mod 16 * 16 + (b mod 16 * 4 + c div 64) div 4 = (b::nat)"
proof -
  have "b div 16 < 16" and "c div 64 < 4"
    using assms by simp_all
  then show ?thesis
    by simp
qed

lemma b64_third:
  assumes "c < 256"
  shows "(b mod 16 * 4 + c div 64) mod 4 * 64 + c mod 64 = (c::nat)"
proof -
  have "c div 64 < 4"
    using assms by simp
  then show ?thesis
    by simp
qed

lemma b64_roundtrip:
  "\<forall>n \<in> set ns. n < 256 \<Longrightarrow>
   b64_decode (map b64_index (takeWhile (\<lambda>c. c \<noteq> 0x3D) (b64_encode ns))) = ns"
proof (induction ns rule: b64_encode.induct)
  case (1 a b c rest)
  have a: "a < 256" and b: "b < 256" and c: "c < 256"
    using 1(2) by simp_all
  have i1: "a div 4 < 64" and i2: "a mod 4 * 16 + b div 16 < 64"
    and i3: "b mod 16 * 4 + c div 64 < 64" and i4: "c mod 64 < 64"
    using a b c by simp_all
  have r: "b64_decode (map b64_index (takeWhile (\<lambda>c. c \<noteq> 0x3D) (b64_encode rest))) = rest"
    using 1 by simp
  show ?case
    using b64_index_char [OF i1] b64_index_char [OF i2] b64_index_char [OF i3]
      b64_index_char [OF i4] r b64_first [OF b, of a] b64_second [OF b c, of a]
      b64_third [OF c, of b]
    by simp
next
  case (2 a b)
  have a: "a < 256" and b: "b < 256"
    using 2 by simp_all
  have i1: "a div 4 < 64" and i2: "a mod 4 * 16 + b div 16 < 64" and i3: "b mod 16 * 4 < 64"
    using a b by simp_all
  have z: "(0::nat) < 256"
    by simp
  show ?case
    using b64_index_char [OF i1] b64_index_char [OF i2] b64_index_char [OF i3]
      b64_first [OF b, of a] b64_second [OF b z, of a]
    by simp
next
  case (3 a)
  have a: "a < 256"
    using 3 by simp
  have i1: "a div 4 < 64" and i2: "a mod 4 * 16 < 64"
    using a by simp_all
  have z: "(0::nat) < 256"
    by simp
  show ?case
    using b64_index_char [OF i1] b64_index_char [OF i2] b64_first [OF z, of a]
    by simp
next
  case 4
  show ?case
    by simp
qed

lemma Base64_roundtrip: "Base64_parse (Base64_stringify bytes) = bytes"
proof -
  have "unat w < 256" for w :: "8 word"
    using unsigned_less [of w] by simp
  then have "\<forall>n \<in> set (map unat bytes). n < 256"
    by simp
  then show ?thesis
    by (simp add: Base64_parse_def Base64_stringify_def b64_roundtrip map_idI)
qed

lemma length_salt_bytes: "length (salt_bytes r) = 8"
  by (simp add: salt_bytes_def)

lemma OpenSSL_roundtrip:
  assumes "length salt = 8"
  shows "OpenSSL_parse (OpenSSL_stringify salt ct) = (Some salt, ct)"
  using assms by (simp add: OpenSSL_parse_def OpenSSL_stringify_def Base64_roundtrip Salted_def)

lemma OpenSSL_stringify_not_empty: "OpenSSL_stringify salt ct \<noteq> []"
  by (simp add: OpenSSL_stringify_def Base64_stringify_def Salted_def)

lemma CryptoJS_AES_decrypt_encrypt:
  assumes "Utf8_parse key1 = Inr p1" and "Utf8_parse key2 = Inr p2"
    and "Utf8_parse plaintext = Inr m"
  shows "CryptoJS_AES_encrypt r plaintext key1 =
           Inr (OpenSSL_stringify (salt_bytes r) (encrypt_with (EvpKDF p1 (salt_bytes r)) m)) \<and>
         CryptoJS_AES_decrypt r' (OpenSSL_stringify (salt_bytes r)
             (encrypt_with (EvpKDF p1 (salt_bytes r)) m)) key2 =
           Inr (decrypt_with (EvpKDF p2 (salt_bytes r))
                  (encrypt_with (EvpKDF p1 (salt_bytes r)) m))"
  using assms
  by (simp add: CryptoJS_AES_encrypt_def CryptoJS_AES_decrypt_def OpenSSL_roundtrip length_salt_bytes)

section \<open>The field cipher: empty strings\<close>

text \<open>
  C8: for every key, \<open>encrypt\<close> of the empty string is the empty string and \<open>decrypt\<close> of the
  empty string is the empty string; neither call throws (both return on the first line,
  before the library is called).
\<close>

theorem encrypt_decrypt_empty_identity:
  "encrypt lib r [] key = Inr [] \<and> decrypt lib r' [] key = Inr []"
  by (simp add: encrypt_def decrypt_def)

text \<open>
  C10: for a non-empty ciphertext, \<open>decrypt\<close> never returns the empty string: it throws the
  decryption-failure error or returns a non-empty plaintext. So \<open>decrypt\<close> returns the empty
  string exactly when its input is the empty string.
\<close>

theorem decrypt_empty_result_iff:
  "(decrypt lib r ciphertext key = Inr []) = (ciphertext = []) \<and>
   (ciphertext = [] \<or>
    decrypt lib r ciphertext key =
      Inl (Error (js ''Failed to decrypt data - wrong master password?'')) \<or>
    (\<exists>plaintext. plaintext \<noteq> [] \<and> decrypt lib r ciphertext key = Inr plaintext))"
  by (auto simp add: decrypt_def decrypt_body_def split: sum.splits)

section \<open>The field cipher: round trip\<close>



section \<open>The field cipher: another key\<close>

text \<open>
  C2 as stated fails: \<open>p@ss1\<close> encrypted under \<open>key1\<close> (salt \<open>01 02 .. 08\<close>) and decrypted under
  \<open>key39\<close> gives the one-character string \<open>-\<close>. Under the key and IV derived from \<open>key39\<close> the
  block decrypts to bytes that end in \<open>0F\<close>, so fifteen bytes are removed as padding, and the
  byte \<open>2D\<close> that is left is valid UTF-8.
\<close>

theorem wrong_key_returns_a_string:
  "encrypt CryptoJS 0x0102030405060708 (js ''p@ss1'') (js ''key1'') =
     Inr (js ''U2FsdGVkX18BAgMEBQYHCN1qTgy88YvD7uevCuuVLV0='') \<and>
   js ''key1'' \<noteq> js ''key39'' \<and>
   decrypt CryptoJS 0 (js ''U2FsdGVkX18BAgMEBQYHCN1qTgy88YvD7uevCuuVLV0='') (js ''key39'') =
     Inr (js ''-'')"
proof -
  have e: "encrypt CryptoJS 0x0102030405060708 (js ''p@ss1'') (js ''key1'') =
      Inr (js ''U2FsdGVkX18BAgMEBQYHCN1qTgy88YvD7uevCuuVLV0='')"
    by (simp add: encrypt_def CryptoJS_def CryptoJS_AES_encrypt_example)
  have d: "decrypt CryptoJS 0 (js ''U2FsdGVkX18BAgMEBQYHCN1qTgy88YvD7uevCuuVLV0='') (js ''key39'') =
      Inr (js ''-'')"
    by (simp add: decrypt_def decrypt_body_def CryptoJS_def CryptoJS_AES_decrypt_key39
        CryptoJS_Utf8_stringify_dash)
  have k: "js ''key1'' \<noteq> js ''key39''"
    by simp
  from e k d show ?thesis
    by (simp only: simp_thms)
qed

text \<open>
  C2, amended: for a non-empty plaintext and keys without unpaired surrogates, \<open>encrypt\<close>
  returns the OpenSSL text of the salt and the encrypted blocks, and \<open>decrypt\<close> of that text
  under a second key fails with the decryption error exactly when the bytes left after
  decrypting the blocks with the second key and removing the padding are not UTF-8 or are
  no bytes at all. Otherwise \<open>decrypt\<close> returns their decoding, whether or not the second key
  is the first.
\<close>

theorem wrong_key_outcome:
  assumes "plaintext \<noteq> []"
    and "Utf8_parse plaintext = Inr m"
    and "Utf8_parse key1 = Inr p1"
    and "Utf8_parse key2 = Inr p2"
  shows "encrypt CryptoJS r plaintext key1 =
           Inr (OpenSSL_stringify (salt_bytes r) (encrypt_with (EvpKDF p1 (salt_bytes r)) m)) \<and>
         decrypt CryptoJS r'
             (OpenSSL_stringify (salt_bytes r) (encrypt_with (EvpKDF p1 (salt_bytes r)) m)) key2 =
           (case utf8_decode 0 0 0
                   (decrypt_with (EvpKDF p2 (salt_bytes r))
                      (encrypt_with (EvpKDF p1 (salt_bytes r)) m)) of
              None \<Rightarrow> Inl (Error (js ''Failed to decrypt data - wrong master password?''))
            | Some s \<Rightarrow>
                if s = [] then Inl (Error (js ''Failed to decrypt data - wrong master password?''))
                else Inr s)"
proof -
  let ?c = "OpenSSL_stringify (salt_bytes r) (encrypt_with (EvpKDF p1 (salt_bytes r)) m)"
  let ?bytes = "decrypt_with (EvpKDF p2 (salt_bytes r)) (encrypt_with (EvpKDF p1 (salt_bytes r)) m)"
  have lib: "CryptoJS_AES_encrypt r plaintext key1 = Inr ?c"
    "CryptoJS_AES_decrypt r' ?c key2 = Inr ?bytes"
    using CryptoJS_AES_decrypt_encrypt [OF assms(3) assms(4) assms(2)] by simp_all
  have e: "encrypt CryptoJS r plaintext key1 = Inr ?c"
    using assms(1) lib(1) by (simp add: encrypt_def CryptoJS_def)
  have d: "decrypt CryptoJS r' ?c key2 =
      (case utf8_decode 0 0 0 ?bytes of
         None \<Rightarrow> Inl (Error (js ''Failed to decrypt data - wrong master password?''))
       | Some s \<Rightarrow>
           if s = [] then Inl (Error (js ''Failed to decrypt data - wrong master password?''))
           else Inr s)"
    using lib(2)
    by (simp add: decrypt_def decrypt_body_def CryptoJS_def OpenSSL_stringify_not_empty
        CryptoJS_Utf8_stringify_def split: option.splits)
  from e d show ?thesis
    by (simp only: simp_thms)
qed

text \<open>
  \<open>p@ss1\<close> encrypted under \<open>key1\<close> and decrypted under \<open>key2\<close>: the block decrypts to bytes that
  end in \<open>E5\<close>, no byte is left after the padding is removed, and \<open>decrypt\<close> fails.
\<close>

theorem wrong_key_outcome_witness:
  "js ''p@ss1'' \<noteq> [] \<and>
   Utf8_parse (js ''p@ss1'') = Inr [0x70, 0x40, 0x73, 0x73, 0x31] \<and>
   Utf8_parse (js ''key1'') = Inr [0x6B, 0x65, 0x79, 0x31] \<and>
   Utf8_parse (js ''key2'') = Inr [0x6B, 0x65, 0x79, 0x32] \<and>
   encrypt CryptoJS 0x0102030405060708 (js ''p@ss1'') (js ''key1'') =
     Inr (js ''U2FsdGVkX18BAgMEBQYHCN1qTgy88YvD7uevCuuVLV0='') \<and>
   decrypt CryptoJS 0 (js ''U2FsdGVkX18BAgMEBQYHCN1qTgy88YvD7uevCuuVLV0='') (js ''key2'') =
     Inl (Error (js ''Failed to decrypt data - wrong master password?''))"
proof -
  have p: "js ''p@ss1'' \<noteq> []"
    by simp
  note w = wrong_key_outcome [OF p Utf8_parse_plaintext Utf8_parse_key1 Utf8_parse_key2,
      of "0x0102030405060708" 0]
  have c: "OpenSSL_stringify (salt_bytes 0x0102030405060708)
      (encrypt_with (EvpKDF [0x6B, 0x65, 0x79, 0x31] (salt_bytes 0x0102030405060708))
         [0x70, 0x40, 0x73, 0x73, 0x31]) =
      js ''U2FsdGVkX18BAgMEBQYHCN1qTgy88YvD7uevCuuVLV0=''"
    by (simp only: salt_bytes_example EvpKDF_key1 encrypt_with_key1 OpenSSL_stringify_example)
  have b: "decrypt_with (EvpKDF [0x6B, 0x65, 0x79, 0x32] (salt_bytes 0x0102030405060708))
      (encrypt_with (EvpKDF [0x6B, 0x65, 0x79, 0x31] (salt_bytes 0x0102030405060708))
         [0x70, 0x40, 0x73, 0x73, 0x31]) = []"
    by (simp only: salt_bytes_example EvpKDF_key1 EvpKDF_key2 encrypt_with_key1 decrypt_with_key2)
  from w have "encrypt CryptoJS 0x0102030405060708 (js ''p@ss1'') (js ''key1'') =
      Inr (js ''U2FsdGVkX18BAgMEBQYHCN1qTgy88YvD7uevCuuVLV0='') \<and>
    decrypt CryptoJS 0 (js ''U2FsdGVkX18BAgMEBQYHCN1qTgy88YvD7uevCuuVLV0='') (js ''key2'') =
      Inl (Error (js ''Failed to decrypt data - wrong master password?''))"
    unfolding c b by simp
  with p Utf8_parse_plaintext Utf8_parse_key1 Utf8_parse_key2 show ?thesis
    by (simp only: simp_thms)
qed

section \<open>The secret-strength policy\<close>

text \<open>
  C3 as stated fails: the secret \<open>aaaaaaaa\<close> has length 8 and is scored weak,
  \<open>validateMasterPassword\<close> accepts it with a message, and the master-password prompt then
  shows that message as an error and returns: no request is sent and no verifier is set.
\<close>

theorem weak_secret_blocked_by_prompt:
  "8 \<le> length (js ''aaaaaaaa'') \<and>
   validateMasterPassword (js ''aaaaaaaa'') =
     \<lparr>isValid = True, message = Some (js ''Consider using a stronger master password''),
      strength = Weak\<rparr> \<and>
   handleSubmit toy_bcrypt 7 alice 5 True (js ''aaaaaaaa'') example_db =
     (SetError (js ''Consider using a stronger master password''), example_db)"
  by (simp add: handleSubmit_def validate_aaaaaaaa or_else_def) (simp add: js_def)

text \<open>
  C3, amended: every secret shorter than 8 characters is rejected by
  \<open>validateMasterPassword\<close> (\<open>isValid\<close> is false), by the derivation of the session key and by
  the master-password prompt. A secret of length at least 8 whose score is weak is accepted
  by \<open>validateMasterPassword\<close> with the message "Consider using a stronger master password",
  and the derivation of the session key does not block it (its result is that of
  \<open>deriveKey\<close>); the master-password prompt, through which the verifier is set and checked,
  does block it, whatever the state of the server.
\<close>

theorem secret_strength_policy:
  "(length s < 8 \<longrightarrow>
      validateMasterPassword s =
        \<lparr>isValid = False, message = Some (js ''Master password must be at least 8 characters''),
         strength = Weak\<rparr> \<and>
      setupEncryptionKey lib s mail st = (False, st) \<and>
      handleSubmit bc r sess now isFirstTime s d =
        (SetError (js ''Master password must be at least 8 characters''), d)) \<and>
   (8 \<le> length s \<and> strength_of_score (score s) = Weak \<longrightarrow>
      validateMasterPassword s =
        \<lparr>isValid = True, message = Some (js ''Consider using a stronger master password''),
         strength = Weak\<rparr> \<and>
      setupEncryptionKey lib s mail st =
        (case deriveKey lib s mail of
           Inl error \<Rightarrow> (False, st)
         | Inr key \<Rightarrow> (True, st\<lparr>encryptionKey := Some key, isLocked := False\<rparr>)) \<and>
      handleSubmit bc r sess now isFirstTime s d =
        (SetError (js ''Consider using a stronger master password''), d))"
proof (intro conjI impI)
  assume short: "length s < 8"
  note v = validate_short [OF short]
  show "validateMasterPassword s =
        \<lparr>isValid = False, message = Some (js ''Master password must be at least 8 characters''),
         strength = Weak\<rparr>"
    by (rule v)
  show "setupEncryptionKey lib s mail st = (False, st)"
    by (simp add: setupEncryptionKey_def v)
  show "handleSubmit bc r sess now isFirstTime s d =
        (SetError (js ''Master password must be at least 8 characters''), d)"
    by (simp add: handleSubmit_def v or_else_def)
next
  assume weak: "8 \<le> length s \<and> strength_of_score (score s) = Weak"
  then have v: "validateMasterPassword s =
        \<lparr>isValid = True, message = Some (js ''Consider using a stronger master password''),
         strength = Weak\<rparr>"
    by (simp add: validate_weak)
  show "validateMasterPassword s =
        \<lparr>isValid = True, message = Some (js ''Consider using a stronger master password''),
         strength = Weak\<rparr>"
    by (rule v)
  show "setupEncryptionKey lib s mail st =
        (case deriveKey lib s mail of
           Inl error \<Rightarrow> (False, st)
         | Inr key \<Rightarrow> (True, st\<lparr>encryptionKey := Some key, isLocked := False\<rparr>))"
    by (simp add: setupEncryptionKey_def v)
  show "handleSubmit bc r sess now isFirstTime s d =
        (SetError (js ''Consider using a stronger master password''), d)"
    by (simp add: handleSubmit_def v or_else_def)
qed

text \<open>The policy at the secrets \<open>short\<close> and \<open>aaaaaaaa\<close>.\<close>

theorem secret_strength_policy_witness:
  "length (js ''short'') < 8 \<and>
   setupEncryptionKey toy_kdf (js ''short'') (js ''alice@example.com'')
       \<lparr>encryptionKey = None, isLocked = True\<rparr> =
     (False, \<lparr>encryptionKey = None, isLocked = True\<rparr>) \<and>
   handleSubmit toy_bcrypt 7 alice 5 True (js ''short'') example_db =
     (SetError (js ''Master password must be at least 8 characters''), example_db) \<and>
   8 \<le> length (js ''aaaaaaaa'') \<and> strength_of_score (score (js ''aaaaaaaa'')) = Weak \<and>
   setupEncryptionKey toy_kdf (js ''aaaaaaaa'') (js ''alice@example.com'')
       \<lparr>encryptionKey = None, isLocked = True\<rparr> =
     (True, \<lparr>encryptionKey = Some (js ''aaaaaaaaalice@example.com''), isLocked = False\<rparr>)"
proof -
  have short: "length (js ''short'') < 8"
    by (simp add: js_def)
  have weak: "8 \<le> length (js ''aaaaaaaa'') \<and> strength_of_score (score (js ''aaaaaaaa'')) = Weak"
    by (simp add: score_aaaaaaaa strength_of_score_def) (simp add: js_def)
  have derive: "deriveKey toy_kdf (js ''aaaaaaaa'') (js ''alice@example.com'') =
      Inr (js ''aaaaaaaaalice@example.com'')"
    by (simp add: deriveKey_def toy_kdf_def js_def)
  from short weak derive
    secret_strength_policy [of "js ''short''" toy_kdf "js ''alice@example.com''"
      "\<lparr>encryptionKey = None, isLocked = True\<rparr>" toy_bcrypt 7 alice 5 True example_db]
    secret_strength_policy [of "js ''aaaaaaaa''" toy_kdf "js ''alice@example.com''"
      "\<lparr>encryptionKey = None, isLocked = True\<rparr>" toy_bcrypt 7 alice 5 True example_db]
  show ?thesis by simp
qed

section \<open>Owner isolation\<close>





section \<open>The master-password verifier\<close>

lemmas example_defs =
  POST_master_password_def POST_set_def POST_verify_def PUT_master_password_def PUT_change_def
  alice_def set_request_def verify_request_def verify_empty_request_def
  change_to_empty_request_def change_request_def
  truthy_def or_else_def example_db_def toy_bcrypt_def save_def


lemma users_example_db_set:
  "users example_db_set =
     (users example_db)(js ''a1'' \<mapsto>
        \<lparr>email = js ''alice@example.com'', user_password = js ''$2b$10$a'',
         masterPasswordHash = Some (7 # js ''LongEnough1!''), user_createdAt = 0,
         user_updatedAt = 5\<rparr>)"
  unfolding example_db_set_def by (simp add: example_defs)

lemma vaultItems_example_db_set: "vaultItems example_db_set = vaultItems example_db"
  unfolding example_db_set_def by (simp add: example_defs)

lemma alice_in_example_db_set:
  "users example_db_set (js ''a1'') =
     Some \<lparr>email = js ''alice@example.com'', user_password = js ''$2b$10$a'',
           masterPasswordHash = Some (7 # js ''LongEnough1!''), user_createdAt = 0,
           user_updatedAt = 5\<rparr>"
  by (simp add: users_example_db_set)







section \<open>Changing the master password\<close>






lemma PUT_change_frame:
  assumes "PUT_change bc r uid u old new now d = (resp, d')"
  shows "vaultItems d' = vaultItems d"
    and "PUT_change bc r uid u old new now (d\<lparr>vaultItems := v\<rparr>) = (resp, d'\<lparr>vaultItems := v\<rparr>)"
    and "response_status resp = 200 \<Longrightarrow>
           \<exists>h. bcrypt_hash bc r new 10 = Inr h \<and>
               users d' = (users d)(uid \<mapsto> u\<lparr>masterPasswordHash := Some h, user_updatedAt := now\<rparr>)"
  using assms
  by (auto simp add: PUT_change_def save_def response_status_def
      split: option.splits if_splits sum.splits)

lemma PUT_master_password_cases:
  "(\<exists>s su u rq old new. sess = Some s \<and> user s = Some su \<and> users d (id_session su) = Some u \<and>
       req = Inr rq \<and> oldMasterPassword rq = Some old \<and> newMasterPassword rq = Some new \<and>
       (\<forall>d0. users d0 (id_session su) = Some u \<longrightarrow>
          PUT_master_password bc r sess req now d0 = PUT_change bc r (id_session su) u old new now d0)) \<or>
   (response_status (fst (PUT_master_password bc r sess req now d)) \<noteq> 200 \<and>
       (\<forall>d0. users d0 = users d \<longrightarrow>
          PUT_master_password bc r sess req now d0 = (fst (PUT_master_password bc r sess req now d), d0)))"
proof (cases sess)
  case None
  then show ?thesis
    by (auto simp add: PUT_master_password_def Unauthorized_def response_status_def)
next
  case (Some s)
  note s = this
  show ?thesis
  proof (cases "user s")
    case None
    with s show ?thesis
      by (auto simp add: PUT_master_password_def Unauthorized_def response_status_def)
  next
    case (Some su)
    note su = this
    show ?thesis
    proof (cases req)
      case (Inl e)
      with s su show ?thesis
        by (auto simp add: PUT_master_password_def response_status_def)
    next
      case (Inr rq)
      note rq = this
      show ?thesis
      proof (cases "truthy (oldMasterPassword rq) \<and> truthy (newMasterPassword rq)")
        case False
        with s su rq show ?thesis
          by (auto simp add: PUT_master_password_def response_status_def)
      next
        case True
        then obtain old new where old: "oldMasterPassword rq = Some old"
          and new: "newMasterPassword rq = Some new"
          by (auto simp add: truthy_def split: option.splits)
        show ?thesis
        proof (cases "users d (id_session su)")
          case None
          with s su rq True show ?thesis
            by (auto simp add: PUT_master_password_def response_status_def)
        next
          case (Some u)
          with s su rq True old new show ?thesis
            by (auto simp add: PUT_master_password_def or_else_def truthy_def)
        qed
      qed
    qed
  qed
qed

text \<open>
  C7: \<open>rekey\<close> never modifies a stored record: the collection of vault items after the call
  is the collection before. It does not read one either: on a database with any other
  collection of vault items it gives the same response and leaves that collection in place.
  When it succeeds (status 200) the only change is to the owner's user document, whose
  verifier becomes the hash of the new secret (mongoose stamps \<open>updatedAt\<close>).
\<close>

theorem rekey_replaces_only_the_verifier:
  assumes "PUT_master_password bc r sess req now d = (resp, d')"
  shows "vaultItems d' = vaultItems d \<and>
         PUT_master_password bc r sess req now (d\<lparr>vaultItems := v\<rparr>) =
           (resp, d'\<lparr>vaultItems := v\<rparr>) \<and>
         (response_status resp = 200 \<longrightarrow>
            (\<exists>s su u rq old new h.
               sess = Some s \<and> user s = Some su \<and> users d (id_session su) = Some u \<and>
               req = Inr rq \<and> oldMasterPassword rq = Some old \<and> newMasterPassword rq = Some new \<and>
               bcrypt_hash bc r new 10 = Inr h \<and>
               users d' = (users d)(id_session su \<mapsto>
                  u\<lparr>masterPasswordHash := Some h, user_updatedAt := now\<rparr>)))"
proof -
  from PUT_master_password_cases [of sess d req bc r now]
  show ?thesis
  proof (elim disjE exE conjE)
    fix s su u rq old new
    assume facts: "sess = Some s" "user s = Some su" "users d (id_session su) = Some u"
      "req = Inr rq" "oldMasterPassword rq = Some old" "newMasterPassword rq = Some new"
      and run: "\<forall>d0. users d0 (id_session su) = Some u \<longrightarrow>
          PUT_master_password bc r sess req now d0 = PUT_change bc r (id_session su) u old new now d0"
    from run facts(3) assms
    have change: "PUT_change bc r (id_session su) u old new now d = (resp, d')"
      by simp
    from run facts(3)
    have "PUT_master_password bc r sess req now (d\<lparr>vaultItems := v\<rparr>) =
        PUT_change bc r (id_session su) u old new now (d\<lparr>vaultItems := v\<rparr>)"
      by simp
    with PUT_change_frame [OF change] facts show ?thesis
      by simp
  next
    assume no: "response_status (fst (PUT_master_password bc r sess req now d)) \<noteq> 200"
      and run: "\<forall>d0. users d0 = users d \<longrightarrow>
          PUT_master_password bc r sess req now d0 = (fst (PUT_master_password bc r sess req now d), d0)"
    from run assms have same: "d' = d"
      by simp
    from run assms
    have "PUT_master_password bc r sess req now (d\<lparr>vaultItems := v\<rparr>) = (resp, d\<lparr>vaultItems := v\<rparr>)"
      by simp
    with same no assms show ?thesis
      by simp
  qed
qed

text \<open>
  Alice changes her master password; Bob's item is still the only record.
\<close>

theorem rekey_replaces_only_the_verifier_witness:
  "PUT_master_password toy_bcrypt 9 alice change_request 7 example_db_set =
     (NextResponse_json
        (SuccessWarningBody (js ''Master password changed successfully'')
           (js ''All existing vault items are encrypted with the old master password. You will need to re-encrypt them.''))
        200,
      example_db_set\<lparr>users := (users example_db_set)(js ''a1'' \<mapsto>
         \<lparr>email = js ''alice@example.com'', user_password = js ''$2b$10$a'',
          masterPasswordHash = Some (9 # js ''EvenLonger2!''), user_createdAt = 0,
          user_updatedAt = 7\<rparr>)\<rparr>) \<and>
   vaultItems (snd (PUT_master_password toy_bcrypt 9 alice change_request 7 example_db_set)) =
     [js ''i9'' \<mapsto> bobs_item]"
proof -
  have run: "PUT_master_password toy_bcrypt 9 alice change_request 7 example_db_set =
     (NextResponse_json
        (SuccessWarningBody (js ''Master password changed successfully'')
           (js ''All existing vault items are encrypted with the old master password. You will need to re-encrypt them.''))
        200,
      example_db_set\<lparr>users := (users example_db_set)(js ''a1'' \<mapsto>
         \<lparr>email = js ''alice@example.com'', user_password = js ''$2b$10$a'',
          masterPasswordHash = Some (9 # js ''EvenLonger2!''), user_createdAt = 0,
          user_updatedAt = 7\<rparr>)\<rparr>)"
    by (simp add: PUT_master_password_def PUT_change_def alice_def change_request_def truthy_def
        or_else_def alice_in_example_db_set toy_bcrypt_def save_def)
  have items: "vaultItems example_db_set = [js ''i9'' \<mapsto> bobs_item]"
    by (simp add: vaultItems_example_db_set example_db_def)
  from rekey_replaces_only_the_verifier [OF run] run items
  show ?thesis by simp
qed

section \<open>Parsing an imported vault\<close>

lemma Array_isArray_truthy: "Array_isArray v \<Longrightarrow> json_truthy v"
  by (cases v) (auto simp add: Array_isArray_def json_truthy_def split: json.splits)

lemma items_is_array_JObject:
  "items_is_array (JObject props) = Array_isArray (map_of props (js ''items''))"
  by (simp add: items_is_array_def Array_isArray_def)

lemma body_JObject:
  "parseImportedVault_body (Inr (JObject props)) =
     (if version_truthy (JObject props) \<and> items_is_array (JObject props)
      then Inr (JObject props)
      else Inl (Error (js ''Invalid vault export format'')))"
  using Array_isArray_truthy [of "map_of props (js ''items'')"]
  by (auto simp add: parseImportedVault_body_def get_property_def version_truthy_def
      items_is_array_JObject)

lemma body_not_object:
  "\<forall>props. data \<noteq> JObject props \<Longrightarrow> \<exists>e. parseImportedVault_body (Inr data) = Inl e"
  by (cases data) (simp_all add: parseImportedVault_body_def get_property_def json_truthy_def)

lemma not_object_rejected:
  "\<forall>props. data \<noteq> JObject props \<Longrightarrow> \<not> version_truthy data"
  by (cases data) (simp_all add: version_truthy_def)

lemma parseImportedVault_body_Inr:
  "(parseImportedVault_body parsed = Inr b) =
     (parsed = Inr b \<and> version_truthy b \<and> items_is_array b)"
proof (cases parsed)
  case (Inl e)
  then show ?thesis
    by (simp add: parseImportedVault_body_def)
next
  case (Inr data)
  show ?thesis
  proof (cases "\<exists>props. data = JObject props")
    case True
    then obtain props where "data = JObject props" ..
    with Inr show ?thesis
      by (auto simp add: body_JObject)
  next
    case False
    then have no: "\<forall>props. data \<noteq> JObject props"
      by simp
    from body_not_object [OF no] not_object_rejected [OF no] Inr show ?thesis
      by auto
  qed
qed


text \<open>
  C9 as stated fails: the text \<open>{"version":"","items":[]}\<close> parses as JSON, its version tag
  is present and its items are an array, and the function throws: \<open>!data.version\<close> tests the
  tag for truthiness, not for presence.
\<close>

theorem empty_version_counterexample:
  "version_present empty_version_bundle \<and> items_is_array empty_version_bundle \<and>
   parseImportedVault (Inr empty_version_bundle) =
     Inl (Error (js ''Failed to parse vault file: Invalid vault export format''))"
proof -
  have present: "version_present empty_version_bundle"
    by (simp add: empty_version_bundle_def version_present_def)
  have items: "items_is_array empty_version_bundle"
    by (simp add: empty_version_bundle_def items_is_array_def)
  have falsy: "\<not> version_truthy empty_version_bundle"
    by (simp add: empty_version_bundle_def version_truthy_def json_truthy_def)
  have "parseImportedVault_body (Inr empty_version_bundle) =
      Inl (Error (js ''Invalid vault export format''))"
    using falsy unfolding empty_version_bundle_def by (simp add: body_JObject)
  then have "parseImportedVault (Inr empty_version_bundle) =
      Inl (Error (js ''Failed to parse vault file: '' @ js ''Invalid vault export format''))"
    by (simp add: parseImportedVault_def error_message_def)
  with present items show ?thesis
    by (simp add: js_def)
qed

text \<open>
  C9, amended: \<open>parseImportedVault\<close> returns a bundle exactly when the input parses as JSON
  to an object whose version tag is truthy (present and not \<open>null\<close>, \<open>false\<close>, \<open>0\<close> or the empty
  string) and whose items field is an array, and the bundle it returns is the parsed value
  itself, with its version, items and counts as parsed. For every other input it throws an
  error whose message starts with "Failed to parse vault file: ".
\<close>

theorem parse_import_accepts_iff:
  "(parseImportedVault parsed = Inr b) =
     (parsed = Inr b \<and> version_truthy b \<and> items_is_array b) \<and>
   (\<exists>m. parseImportedVault parsed = Inl (Error (js ''Failed to parse vault file: '' @ m))) =
     (\<forall>data. parsed = Inr data \<longrightarrow> \<not> (version_truthy data \<and> items_is_array data))"
proof -
  have body: "\<And>c. (parseImportedVault_body parsed = Inr c) =
     (parsed = Inr c \<and> version_truthy c \<and> items_is_array c)"
    by (rule parseImportedVault_body_Inr)
  have accept: "(parseImportedVault parsed = Inr b) =
     (parsed = Inr b \<and> version_truthy b \<and> items_is_array b)"
    using body [of b] by (auto simp add: parseImportedVault_def split: sum.splits)
  have reject: "(\<exists>m. parseImportedVault parsed = Inl (Error (js ''Failed to parse vault file: '' @ m))) =
     (\<forall>data. parsed = Inr data \<longrightarrow> \<not> (version_truthy data \<and> items_is_array data))"
  proof (cases "parseImportedVault_body parsed")
    case (Inl e)
    then have "\<And>c. parseImportedVault_body parsed \<noteq> Inr c"
      by simp
    with body have "\<forall>data. parsed = Inr data \<longrightarrow> \<not> (version_truthy data \<and> items_is_array data)"
      by blast
    moreover from Inl
    have "parseImportedVault parsed = Inl (Error (js ''Failed to parse vault file: '' @ error_message e))"
      by (simp add: parseImportedVault_def)
    ultimately show ?thesis
      by blast
  next
    case (Inr c)
    with body [of c] have "parsed = Inr c \<and> version_truthy c \<and> items_is_array c"
      by simp
    moreover from Inr have "parseImportedVault parsed = Inr c"
      by (simp add: parseImportedVault_def)
    ultimately show ?thesis
      by auto
  qed
  from accept reject show ?thesis by simp
qed

text \<open>
  An export of an empty vault is accepted; the text \<open>null\<close> is rejected.
\<close>

theorem parse_import_accepts_iff_witness:
  "parseImportedVault (Inr empty_vault_bundle) = Inr empty_vault_bundle \<and>
   (\<exists>m. parseImportedVault (Inr JNull) = Inl (Error (js ''Failed to parse vault file: '' @ m)))"
proof -
  have ok: "version_truthy empty_vault_bundle \<and> items_is_array empty_vault_bundle"
    by (simp add: empty_vault_bundle_def version_truthy_def items_is_array_def json_truthy_def)
  have null: "\<not> version_truthy JNull"
    by (simp add: version_truthy_def)
  from parse_import_accepts_iff [of "Inr empty_vault_bundle" empty_vault_bundle]
    parse_import_accepts_iff [of "Inr JNull" JNull] ok null
  show ?thesis by simp
qed

end
